theory Spec2Isabelle
  imports Complex_Main "HOL-Library.Word"
begin

unbundle bit_operations_syntax

section \<open>SurfaceTexture: the consumer side of the buffer queue\<close>

text \<open>
  A shallow embedding of \<^verbatim>\<open>libs/gui/SurfaceTexture.cpp\<close>. The object is a record,
  every member function takes the object and returns the object it leaves behind, the
  value it returns and the calls it has made on the GL/EGL platform and on the buffer
  queue, in program order. What the platform and the queue answer is an argument of the
  function. A null dereference and a store outside the slot table are faults.
\<close>

subsection \<open>The type \<^verbatim>\<open>float\<close>\<close>

text \<open>
  A \<^verbatim>\<open>float\<close> is an IEEE 754 binary32 number: a rational with a 24-bit significand
  and an exponent of at least \<open>-126\<close>, or an infinity or a NaN. The infinities and the
  NaNs are one value, \<open>NonFinite\<close>, which every sum and product with it yields again; the
  two zeros are one value. Every operation rounds its exact result to the nearest
  binary32 number, ties to the even significand.
\<close>

datatype float = Finite rat | NonFinite

fun bit_length :: "nat \<Rightarrow> nat" where
  "bit_length n = (if n = 0 then 0 else Suc (bit_length (n div 2)))"

declare bit_length.simps [simp del]

definition pow2 :: "int \<Rightarrow> rat" where
  "pow2 e = (if 0 \<le> e then 2 ^ nat e else 1 / 2 ^ nat (- e))"

definition ilog2 :: "rat \<Rightarrow> int" where
  \<comment> \<open>for \<open>0 < x\<close>, the exponent \<open>e\<close> with \<open>2^e \<le> x < 2^(e+1)\<close>\<close>
  "ilog2 x = (if 1 \<le> x then int (bit_length (nat \<lfloor>x\<rfloor>)) - 1
              else - int (bit_length (nat (\<lceil>1 / x\<rceil> - 1))))"

definition round_half_even :: "rat \<Rightarrow> int" where
  "round_half_even r =
     (let f = \<lfloor>r\<rfloor>; d = r - of_int f
      in if d < 1 / 2 then f else if 1 / 2 < d then f + 1
         else if even f then f else f + 1)"

definition float_round :: "rat \<Rightarrow> float" where
  "float_round x =
     (if x = 0 then Finite 0
      else let e = max (ilog2 \<bar>x\<bar>) (- 126);
               ulp = pow2 (e - 23);
               y = of_int (round_half_even (x / ulp)) * ulp
           in if \<bar>y\<bar> < pow2 128 then Finite y else NonFinite)"

instantiation float :: "{zero, one, plus, times, uminus, inverse}"
begin

definition zero_float :: float where
  "zero_float = Finite 0"

definition one_float :: float where
  "one_float = Finite 1"

definition plus_float :: "float \<Rightarrow> float \<Rightarrow> float" where
  "plus_float a b =
     (case (a, b) of (Finite x, Finite y) \<Rightarrow> float_round (x + y) | _ \<Rightarrow> NonFinite)"

definition times_float :: "float \<Rightarrow> float \<Rightarrow> float" where
  "times_float a b =
     (case (a, b) of (Finite x, Finite y) \<Rightarrow> float_round (x * y) | _ \<Rightarrow> NonFinite)"

definition uminus_float :: "float \<Rightarrow> float" where
  "uminus_float a = (case a of Finite x \<Rightarrow> Finite (- x) | NonFinite \<Rightarrow> NonFinite)"

definition divide_float :: "float \<Rightarrow> float \<Rightarrow> float" where
  \<comment> \<open>the code divides converted integers only, so both operands are finite\<close>
  "divide_float a b =
     (case (a, b) of
        (Finite x, Finite y) \<Rightarrow> if y = 0 then NonFinite else float_round (x / y)
      | _ \<Rightarrow> NonFinite)"

definition inverse_float :: "float \<Rightarrow> float" where
  "inverse_float a = divide (Finite 1) a"

instance ..

end

type_synonym int32_t = "32 word"
type_synonym uint32_t = "32 word"

definition float_of_int32 :: "int32_t \<Rightarrow> float" where
  \<comment> \<open>the conversion \<^verbatim>\<open>float(x)\<close> of a signed 32-bit integer\<close>
  "float_of_int32 x = float_round (of_int (sint x))"

definition float_of_uint32 :: "uint32_t \<Rightarrow> float" where
  \<comment> \<open>the conversion \<^verbatim>\<open>float(x)\<close> of an unsigned 32-bit integer\<close>
  "float_of_uint32 x = float_round (of_int (uint x))"

subsection \<open>Transform matrices\<close>

text \<open>A \<^verbatim>\<open>float[16]\<close> is a list of sixteen floats, read by index as the code does.\<close>

definition mtxIdentity :: "float list" where
  "mtxIdentity =
     [1, 0, 0, 0,
      0, 1, 0, 0,
      0, 0, 1, 0,
      0, 0, 0, 1]"

definition mtxFlipH :: "float list" where
  "mtxFlipH =
     [- 1, 0, 0, 0,
      0, 1, 0, 0,
      0, 0, 1, 0,
      1, 0, 0, 1]"

definition mtxFlipV :: "float list" where
  "mtxFlipV =
     [1, 0, 0, 0,
      0, - 1, 0, 0,
      0, 0, 1, 0,
      0, 1, 0, 1]"

definition mtxRot90 :: "float list" where
  "mtxRot90 =
     [0, 1, 0, 0,
      - 1, 0, 0, 0,
      0, 0, 1, 0,
      1, 0, 0, 1]"

definition mtxRot180 :: "float list" where
  "mtxRot180 =
     [- 1, 0, 0, 0,
      0, - 1, 0, 0,
      0, 0, 1, 0,
      1, 1, 0, 1]"

definition mtxRot270 :: "float list" where
  "mtxRot270 =
     [0, - 1, 0, 0,
      1, 0, 0, 0,
      0, 0, 1, 0,
      0, 1, 0, 1]"

definition mtxMul :: "float list \<Rightarrow> float list \<Rightarrow> float list" where
  "mtxMul a b =
     [a!0 * b!0 + a!4 * b!1 + a!8 * b!2 + a!12 * b!3,
      a!1 * b!0 + a!5 * b!1 + a!9 * b!2 + a!13 * b!3,
      a!2 * b!0 + a!6 * b!1 + a!10 * b!2 + a!14 * b!3,
      a!3 * b!0 + a!7 * b!1 + a!11 * b!2 + a!15 * b!3,

      a!0 * b!4 + a!4 * b!5 + a!8 * b!6 + a!12 * b!7,
      a!1 * b!4 + a!5 * b!5 + a!9 * b!6 + a!13 * b!7,
      a!2 * b!4 + a!6 * b!5 + a!10 * b!6 + a!14 * b!7,
      a!3 * b!4 + a!7 * b!5 + a!11 * b!6 + a!15 * b!7,

      a!0 * b!8 + a!4 * b!9 + a!8 * b!10 + a!12 * b!11,
      a!1 * b!8 + a!5 * b!9 + a!9 * b!10 + a!13 * b!11,
      a!2 * b!8 + a!6 * b!9 + a!10 * b!10 + a!14 * b!11,
      a!3 * b!8 + a!7 * b!9 + a!11 * b!10 + a!15 * b!11,

      a!0 * b!12 + a!4 * b!13 + a!8 * b!14 + a!12 * b!15,
      a!1 * b!12 + a!5 * b!13 + a!9 * b!14 + a!13 * b!15,
      a!2 * b!12 + a!6 * b!13 + a!10 * b!14 + a!14 * b!15,
      a!3 * b!12 + a!7 * b!13 + a!11 * b!14 + a!15 * b!15]"

subsection \<open>Status codes, handles and platform constants\<close>

text \<open>
  Modelled from the spec: the status codes of its section 7, which the code takes from
  \<^verbatim>\<open>utils/Errors.h\<close> (not among the sources), with the numbers of that header:
  \<^verbatim>\<open>OK\<close> and \<^verbatim>\<open>NO_ERROR\<close> are \<open>0\<close>, \<^verbatim>\<open>NO_INIT\<close> (the spec's NOT_INITIALIZED) is
  \<^verbatim>\<open>-ENODEV\<close>, \<^verbatim>\<open>BAD_VALUE\<close> is \<^verbatim>\<open>-EINVAL\<close>; the spec's INVALID_ARGUMENT is the
  \<^verbatim>\<open>-EINVAL\<close> the code returns.
\<close>

type_synonym status_t = int

definition OK :: status_t where
  "OK = 0"

definition NO_ERROR :: status_t where
  "NO_ERROR = 0"

definition ENODEV :: int where
  "ENODEV = 19"

definition EINVAL :: int where
  "EINVAL = 22"

definition NO_INIT :: status_t where
  "NO_INIT = - ENODEV"

definition BAD_VALUE :: status_t where
  "BAD_VALUE = - EINVAL"

text \<open>
  Modelled from the spec: the opaque GPU handles of its section 6 and their empty
  values (\<^verbatim>\<open>EGL/egl.h\<close> and \<^verbatim>\<open>EGL/eglext.h\<close> are not among the sources). A handle is
  an address; the empty handle of each kind is the null address.
\<close>

type_synonym EGLDisplay = nat
type_synonym EGLContext = nat
type_synonym EGLImageKHR = nat
type_synonym EGLSyncKHR = nat
type_synonym GLuint = "32 word"
type_synonym GLenum = "32 word"

definition EGL_NO_DISPLAY :: EGLDisplay where
  "EGL_NO_DISPLAY = 0"

definition EGL_NO_CONTEXT :: EGLContext where
  "EGL_NO_CONTEXT = 0"

definition EGL_NO_IMAGE_KHR :: EGLImageKHR where
  "EGL_NO_IMAGE_KHR = 0"

definition EGL_NO_SYNC_KHR :: EGLSyncKHR where
  "EGL_NO_SYNC_KHR = 0"

text \<open>
  Modelled from the spec: the size of the slot table (``fixed upper bound, typically
  32'') and the sentinel slot index, which the code takes from \<^verbatim>\<open>gui/BufferQueue.h\<close>
  (not among the sources).
\<close>

definition NUM_BUFFER_SLOTS :: int where
  "NUM_BUFFER_SLOTS = 32"

definition INVALID_BUFFER_SLOT :: int where
  "INVALID_BUFFER_SLOT = - 1"

text \<open>
  Modelled from the spec: the transform flag bits of its section 6 (bit 0 is FLIP_H,
  bit 1 is FLIP_V, bit 2 is ROT_90); \<^verbatim>\<open>system/window.h\<close> is not among the sources.
\<close>

definition NATIVE_WINDOW_TRANSFORM_FLIP_H :: uint32_t where
  "NATIVE_WINDOW_TRANSFORM_FLIP_H = 1"

definition NATIVE_WINDOW_TRANSFORM_FLIP_V :: uint32_t where
  "NATIVE_WINDOW_TRANSFORM_FLIP_V = 2"

definition NATIVE_WINDOW_TRANSFORM_ROT_90 :: uint32_t where
  "NATIVE_WINDOW_TRANSFORM_ROT_90 = 4"

subsection \<open>Buffers, rectangles, slots and the object\<close>

text \<open>
  A \<^verbatim>\<open>sp<GraphicBuffer>\<close> is \<open>None\<close> when null. Of a graphic buffer the code reads its
  handle and its dimensions.
\<close>

record GraphicBuffer =
  handle :: nat
  getWidth :: uint32_t
  getHeight :: uint32_t

text \<open>
  Modelled from the spec: the crop rectangle ``in buffer pixel space'' with its width,
  its height and its emptiness; the class \<^verbatim>\<open>Rect\<close> of \<^verbatim>\<open>ui/Rect.h\<close> is not among the
  sources. The edges are signed 32-bit integers; a rectangle is empty when its width
  or its height is not positive.
\<close>

record Rect =
  left :: int32_t
  top' :: int32_t
  right :: int32_t
  bottom :: int32_t

definition width :: "Rect \<Rightarrow> int32_t" where
  "width r = right r - left r"

definition height :: "Rect \<Rightarrow> int32_t" where
  "height r = bottom r - top' r"

definition isEmpty :: "Rect \<Rightarrow> bool" where
  "isEmpty r = (width r \<le>s 0 \<or> height r \<le>s 0)"

text \<open>The item \<^verbatim>\<open>acquireBuffer\<close> fills in, with the fields the code reads.\<close>

record BufferItem =
  mGraphicBuffer_item :: "GraphicBuffer option"
  mCrop :: Rect
  mTransform :: uint32_t
  mScalingMode :: uint32_t
  mTimestamp :: "64 word"
  mBuf :: int

text \<open>
  The slot and the object, with the members the code reads and writes at the types of
  their uses (the class declaration, \<^verbatim>\<open>gui/SurfaceTexture.h\<close>, is not among the sources).
  The queue and the listener are references, \<open>None\<close> when null.
\<close>

record EGLSlot =
  mGraphicBuffer :: "GraphicBuffer option"
  mEglImage :: EGLImageKHR
  mFence :: EGLSyncKHR

type_synonym BufferQueue = nat

record SurfaceTexture =
  mCurrentTextureBuf :: "GraphicBuffer option"
  mCurrentCrop :: Rect
  mCurrentTransform :: uint32_t
  mCurrentScalingMode :: uint32_t
  mCurrentTimestamp :: "64 word"
  mCurrentTransformMatrix :: "float list"
  mTexName :: GLuint
  mUseFenceSync :: bool
  mTexTarget :: GLenum
  mEglDisplay :: EGLDisplay
  mEglContext :: EGLContext
  mAbandoned :: bool
  mName :: string
  mFrameAvailableListener :: "nat option"
  mCurrentTexture :: int
  mEGLSlots :: "EGLSlot list"
  mBufferQueue :: "BufferQueue option"

subsection \<open>Effects and outcomes\<close>

text \<open>
  The effects of a member function, in program order: the calls on the platform and on
  the buffer queue, the assignment \<^verbatim>\<open>mEGLSlots[i].mGraphicBuffer = 0\<close> that drops a
  slot's buffer reference, and a load from the slot table at an index outside it.
\<close>

datatype effect =
    EglDestroyImageKHR EGLDisplay EGLImageKHR
  | EglCreateImageKHR EGLDisplay GraphicBuffer
  | EglCreateSyncKHR EGLDisplay
  | GlBindTexture GLenum GLuint
  | GlEGLImageTargetTexture2DOES GLenum EGLImageKHR
  | GlFlush
  | ClearGraphicBuffer int
  | LoadOutsideSlots int
  | ConsumerConnect
  | ConsumerDisconnect
  | SetConsumerName string
  | SetDefaultBufferSize uint32_t uint32_t
  | IsSynchronousMode
  | AcquireBuffer
  | ReleaseBuffer int EGLDisplay EGLSyncKHR
  | GetReleasedBuffers

datatype fault = NullDereference | SlotIndexOutOfBounds int

datatype 'a outcome = Returned 'a | Fault fault

subsection \<open>Construction\<close>

fun decimal :: "nat \<Rightarrow> string" where
  "decimal n =
     (if n < 10 then [char_of (48 + n)] else decimal (n div 10) @ [char_of (48 + n mod 10)])"

declare decimal.simps [simp del]

definition format_d :: "int \<Rightarrow> string" where
  \<comment> \<open>the conversion \<^verbatim>\<open>%d\<close>\<close>
  "format_d i = (if i < 0 then CHR ''-'' # decimal (nat (- i)) else decimal (nat i))"

definition EGLSlot_ctor :: EGLSlot where
  "EGLSlot_ctor =
     \<lparr>mGraphicBuffer = None, mEglImage = EGL_NO_IMAGE_KHR, mFence = EGL_NO_SYNC_KHR\<rparr>"

text \<open>
  The constructor (lines 107 to 153). \<open>USE_FENCE_SYNC\<close> tells whether the compile option
  is defined; \<open>pid\<close> and \<open>uniqueId\<close> are what \<^verbatim>\<open>getpid\<close> and \<^verbatim>\<open>createProcessUniqueId\<close>
  return, \<open>newQueue\<close> the queue that \<^verbatim>\<open>new BufferQueue\<close> yields and \<open>connectStatus\<close> what
  \<^verbatim>\<open>consumerConnect\<close> returns. The constructor initialises neither \<^verbatim>\<open>mCurrentCrop\<close>
  nor \<^verbatim>\<open>mCurrentScalingMode\<close>: they hold what the memory held, \<open>uninitCrop\<close> and
  \<open>uninitScalingMode\<close>.
\<close>

definition SurfaceTexture_ctor ::
  "bool \<Rightarrow> GLuint \<Rightarrow> bool \<Rightarrow> GLenum \<Rightarrow> bool \<Rightarrow> BufferQueue option \<Rightarrow>
   int \<Rightarrow> int \<Rightarrow> BufferQueue \<Rightarrow> status_t \<Rightarrow> Rect \<Rightarrow> uint32_t \<Rightarrow>
   SurfaceTexture \<times> effect list" where
  "SurfaceTexture_ctor USE_FENCE_SYNC tex allowSynchronousMode texTarget useFenceSync
       bufferQueue pid uniqueId newQueue connectStatus uninitCrop uninitScalingMode =
     (let name = ''unnamed-'' @ format_d pid @ ''-'' @ format_d uniqueId;
          st = \<lparr>mCurrentTextureBuf = None,
                mCurrentCrop = uninitCrop,
                mCurrentTransform = 0,
                mCurrentScalingMode = uninitScalingMode,
                mCurrentTimestamp = 0,
                mCurrentTransformMatrix = mtxIdentity,
                mTexName = tex,
                mUseFenceSync = (if USE_FENCE_SYNC then useFenceSync else False),
                mTexTarget = texTarget,
                mEglDisplay = EGL_NO_DISPLAY,
                mEglContext = EGL_NO_CONTEXT,
                mAbandoned = False,
                mName = name,
                mFrameAvailableListener = None,
                mCurrentTexture = INVALID_BUFFER_SLOT,
                mEGLSlots = replicate (nat NUM_BUFFER_SLOTS) EGLSlot_ctor,
                mBufferQueue =
                  (case bufferQueue of None \<Rightarrow> Some newQueue | Some q \<Rightarrow> Some q)\<rparr>
      in if connectStatus \<noteq> NO_ERROR then (st, [ConsumerConnect])
         else (st, [ConsumerConnect, SetConsumerName name]))"

subsection \<open>Freeing slots, abandoning, reclaimed slots\<close>

text \<open>\<^verbatim>\<open>freeBufferLocked\<close> (lines 468 to 478).\<close>

definition freeBufferLocked ::
  "SurfaceTexture \<Rightarrow> int \<Rightarrow> (SurfaceTexture \<times> effect list) outcome" where
  "freeBufferLocked st slotIndex =
     (if 0 \<le> slotIndex \<and> slotIndex < NUM_BUFFER_SLOTS then
        let i = nat slotIndex;
            slot = (mEGLSlots st ! i)\<lparr>mGraphicBuffer := None\<rparr>
        in if mEglImage slot \<noteq> EGL_NO_IMAGE_KHR then
             let img = mEglImage slot;
                 destroyed = (if img \<noteq> EGL_NO_IMAGE_KHR
                              then [EglDestroyImageKHR (mEglDisplay st) img] else [])
             in Returned
                  (st\<lparr>mEGLSlots := (mEGLSlots st)[i := slot\<lparr>mEglImage := EGL_NO_IMAGE_KHR\<rparr>]\<rparr>,
                   ClearGraphicBuffer slotIndex # destroyed)
           else Returned
                  (st\<lparr>mEGLSlots := (mEGLSlots st)[i := slot]\<rparr>, [ClearGraphicBuffer slotIndex])
      else Fault (SlotIndexOutOfBounds slotIndex))"

text \<open>The loop of \<^verbatim>\<open>abandon\<close> (lines 489 to 491), from the counter \<open>i\<close> on.\<close>

function abandon_loop ::
  "int \<Rightarrow> SurfaceTexture \<Rightarrow> (SurfaceTexture \<times> effect list) outcome" where
  "abandon_loop i st =
     (if i < NUM_BUFFER_SLOTS then
        (case freeBufferLocked st i of
           Fault f \<Rightarrow> Fault f
         | Returned (st', es) \<Rightarrow>
             (case abandon_loop (i + 1) st' of
                Fault f \<Rightarrow> Fault f
              | Returned (st'', es') \<Rightarrow> Returned (st'', es @ es')))
      else Returned (st, []))"
  by pat_completeness auto
termination
  by (relation "measure (\<lambda>(i, st). nat (NUM_BUFFER_SLOTS - i))") auto

declare abandon_loop.simps [simp del]

text \<open>\<^verbatim>\<open>abandon\<close> (lines 480 to 497).\<close>

definition abandon :: "SurfaceTexture \<Rightarrow> (SurfaceTexture \<times> effect list) outcome" where
  "abandon st =
     (if \<not> mAbandoned st then
        (case abandon_loop 0 (st\<lparr>mAbandoned := True, mCurrentTextureBuf := None\<rparr>) of
           Fault f \<Rightarrow> Fault f
         | Returned (st', es) \<Rightarrow>
             (case mBufferQueue st' of
                None \<Rightarrow> Fault NullDereference
              | Some q \<Rightarrow> Returned (st'\<lparr>mBufferQueue := None\<rparr>, es @ [ConsumerDisconnect])))
      else Returned (st, []))"

text \<open>
  The loop of \<^verbatim>\<open>onBuffersReleased\<close> (lines 573 to 577), from the counter \<open>i\<close> on;
  \<open>mask'\<close> is the \<^verbatim>\<open>mask\<close> that \<^verbatim>\<open>getReleasedBuffers\<close> has stored. In
  \<^verbatim>\<open>mask & (1 << i)\<close> the shifted one is converted to the unsigned type of the mask.
\<close>

function onBuffersReleased_loop ::
  "uint32_t \<Rightarrow> int \<Rightarrow> SurfaceTexture \<Rightarrow> (SurfaceTexture \<times> effect list) outcome" where
  "onBuffersReleased_loop mask' i st =
     (if i < NUM_BUFFER_SLOTS then
        (if mask' AND push_bit (nat i) 1 \<noteq> 0 then
           (case freeBufferLocked st i of
              Fault f \<Rightarrow> Fault f
            | Returned (st', es) \<Rightarrow>
                (case onBuffersReleased_loop mask' (i + 1) st' of
                   Fault f \<Rightarrow> Fault f
                 | Returned (st'', es') \<Rightarrow> Returned (st'', es @ es')))
         else onBuffersReleased_loop mask' (i + 1) st)
      else Returned (st, []))"
  by pat_completeness auto
termination
  by (relation "measure (\<lambda>(mask', i, st). nat (NUM_BUFFER_SLOTS - i))") auto

declare onBuffersReleased_loop.simps [simp del]

text \<open>\<^verbatim>\<open>onBuffersReleased\<close> (lines 561 to 580).\<close>

definition onBuffersReleased ::
  "SurfaceTexture \<Rightarrow> uint32_t \<Rightarrow> (SurfaceTexture \<times> effect list) outcome" where
  "onBuffersReleased st mask' =
     (if mAbandoned st then Returned (st, [])
      else
        (case mBufferQueue st of
           None \<Rightarrow> Fault NullDereference
         | Some q \<Rightarrow>
             (case onBuffersReleased_loop mask' 0 st of
                Fault f \<Rightarrow> Fault f
              | Returned (st', es) \<Rightarrow>
                  Returned (st'\<lparr>mCurrentTexture := INVALID_BUFFER_SLOT\<rparr>,
                            GetReleasedBuffers # es))))"

subsection \<open>Operations that delegate to the buffer queue\<close>

text \<open>
  \<^verbatim>\<open>setDefaultBufferSize\<close> (lines 167 to 171), \<^verbatim>\<open>isSynchronousMode\<close> (lines 463 to 466)
  and \<^verbatim>\<open>setName\<close> (lines 499 to 503). \<open>answer\<close> is what the queue returns.
\<close>

definition setDefaultBufferSize ::
  "SurfaceTexture \<Rightarrow> uint32_t \<Rightarrow> uint32_t \<Rightarrow> status_t \<Rightarrow>
   (status_t \<times> SurfaceTexture \<times> effect list) outcome" where
  "setDefaultBufferSize st w h answer =
     (case mBufferQueue st of
        None \<Rightarrow> Fault NullDereference
      | Some q \<Rightarrow> Returned (answer, st, [SetDefaultBufferSize w h]))"

definition isSynchronousMode ::
  "SurfaceTexture \<Rightarrow> bool \<Rightarrow> (bool \<times> SurfaceTexture \<times> effect list) outcome" where
  "isSynchronousMode st answer =
     (case mBufferQueue st of
        None \<Rightarrow> Fault NullDereference
      | Some q \<Rightarrow> Returned (answer, st, [IsSynchronousMode]))"

definition setName ::
  "SurfaceTexture \<Rightarrow> string \<Rightarrow> (SurfaceTexture \<times> effect list) outcome" where
  "setName st name =
     (let st1 = st\<lparr>mName := name\<rparr>
      in case mBufferQueue st1 of
           None \<Rightarrow> Fault NullDereference
         | Some q \<Rightarrow> Returned (st1, [SetConsumerName name]))"

subsection \<open>Accessors and the listener\<close>

text \<open>
  \<^verbatim>\<open>getTransformMatrix\<close> (lines 318 to 321), \<^verbatim>\<open>getTimestamp\<close> (lines 414 to 418),
  \<^verbatim>\<open>getCurrentBuffer\<close>, \<^verbatim>\<open>getCurrentCrop\<close>, \<^verbatim>\<open>getCurrentTransform\<close> and
  \<^verbatim>\<open>getCurrentScalingMode\<close> (lines 443 to 461) return a member;
  \<^verbatim>\<open>setFrameAvailableListener\<close> (lines 420 to 425) stores the listener.
\<close>

definition getTransformMatrix :: "SurfaceTexture \<Rightarrow> float list" where
  "getTransformMatrix st = mCurrentTransformMatrix st"

definition getTimestamp :: "SurfaceTexture \<Rightarrow> 64 word" where
  "getTimestamp st = mCurrentTimestamp st"

definition getCurrentBuffer :: "SurfaceTexture \<Rightarrow> GraphicBuffer option" where
  "getCurrentBuffer st = mCurrentTextureBuf st"

definition getCurrentCrop :: "SurfaceTexture \<Rightarrow> Rect" where
  "getCurrentCrop st = mCurrentCrop st"

definition getCurrentTransform :: "SurfaceTexture \<Rightarrow> uint32_t" where
  "getCurrentTransform st = mCurrentTransform st"

definition getCurrentScalingMode :: "SurfaceTexture \<Rightarrow> uint32_t" where
  "getCurrentScalingMode st = mCurrentScalingMode st"

definition setFrameAvailableListener :: "SurfaceTexture \<Rightarrow> nat option \<Rightarrow> SurfaceTexture" where
  "setFrameAvailableListener st listener = st\<lparr>mFrameAvailableListener := listener\<rparr>"

subsection \<open>The transform matrix\<close>

text \<open>
  The crop part of \<^verbatim>\<open>computeCurrentTransformMatrix\<close> for a crop that is not empty
  (lines 369 to 390): the translation \<open>tx\<close>, \<open>ty\<close> and the scale \<open>sx\<close>, \<open>sy\<close>, in
  this order. \<^verbatim>\<open>int32_t(buf->getWidth())\<close> keeps the bits and compares signed; in
  \<^verbatim>\<open>buf->getHeight() - mCurrentCrop.bottom\<close> the subtraction is unsigned.
\<close>

definition cropTransform :: "Rect \<Rightarrow> GraphicBuffer \<Rightarrow> float \<times> float \<times> float \<times> float" where
  "cropTransform crop buf =
     (let (tx, xshrink0) =
            (if 0 <s left crop
             then (float_of_int32 (left crop + 1) / float_of_uint32 (getWidth buf), 1)
             else (0, 0 :: int32_t));
          xshrink = (if right crop <s getWidth buf then xshrink0 + 1 else xshrink0);
          (ty, yshrink0) =
            (if bottom crop <s getHeight buf
             then ((float_of_uint32 (getHeight buf - bottom crop) + 1) /
                     float_of_uint32 (getHeight buf), 1)
             else (0, 0 :: int32_t));
          yshrink = (if 0 <s top' crop then yshrink0 + 1 else yshrink0);
          sx = float_of_int32 (width crop - xshrink) / float_of_uint32 (getWidth buf);
          sy = float_of_int32 (height crop - yshrink) / float_of_uint32 (getHeight buf)
      in (tx, ty, sx, sy))"

text \<open>The array \<^verbatim>\<open>crop\<close> of lines 397 to 402.\<close>

definition cropMatrix :: "float \<times> float \<times> float \<times> float \<Rightarrow> float list" where
  "cropMatrix p =
     (case p of (tx, ty, sx, sy) \<Rightarrow>
        [sx, 0, 0, 0,
         0, sy, 0, 0,
         0, 0, 1, 0,
         tx, ty, 0, 1])"

text \<open>
  \<^verbatim>\<open>computeCurrentTransformMatrix\<close> (lines 323 to 412). The buffer is dereferenced
  only when the crop is not empty.
\<close>

definition computeCurrentTransformMatrix :: "SurfaceTexture \<Rightarrow> SurfaceTexture outcome" where
  "computeCurrentTransformMatrix st =
     (let xform0 = mtxIdentity;
          xform1 = (if mCurrentTransform st AND NATIVE_WINDOW_TRANSFORM_FLIP_H \<noteq> 0
                    then mtxMul xform0 mtxFlipH else xform0);
          xform2 = (if mCurrentTransform st AND NATIVE_WINDOW_TRANSFORM_FLIP_V \<noteq> 0
                    then mtxMul xform1 mtxFlipV else xform1);
          xform = (if mCurrentTransform st AND NATIVE_WINDOW_TRANSFORM_ROT_90 \<noteq> 0
                   then mtxMul xform2 mtxRot90 else xform2)
      in if \<not> isEmpty (mCurrentCrop st) then
           (case mCurrentTextureBuf st of
              None \<Rightarrow> Fault NullDereference
            | Some buf \<Rightarrow>
                let crop = cropMatrix (cropTransform (mCurrentCrop st) buf);
                    mtxBeforeFlipV = mtxMul crop xform
                in Returned (st\<lparr>mCurrentTransformMatrix := mtxMul mtxFlipV mtxBeforeFlipV\<rparr>))
         else
           let crop = cropMatrix (0, 0, 1, 1);
               mtxBeforeFlipV = mtxMul crop xform
           in Returned (st\<lparr>mCurrentTransformMatrix := mtxMul mtxFlipV mtxBeforeFlipV\<rparr>))"

subsection \<open>\<^verbatim>\<open>updateTexImage\<close>\<close>

text \<open>
  What the platform and the queue answer during one call of \<^verbatim>\<open>updateTexImage\<close>: the
  current display and context, the status and the item of \<^verbatim>\<open>acquireBuffer\<close>, the
  image of \<^verbatim>\<open>eglCreateImageKHR\<close>, the values \<^verbatim>\<open>glGetError\<close> returns after the bind
  (once they are used up it returns \<^verbatim>\<open>GL_NO_ERROR\<close>), the fence of \<^verbatim>\<open>eglCreateSyncKHR\<close>,
  and \<open>strayFence\<close>, the value a load of \<^verbatim>\<open>mFence\<close> finds beside the slot table.
\<close>

record platform =
  eglGetCurrentDisplay :: EGLDisplay
  eglGetCurrentContext :: EGLContext
  acquireBuffer :: "status_t \<times> BufferItem"
  eglCreateImageKHR :: EGLImageKHR
  glGetError_after_bind :: "GLenum list"
  eglCreateSyncKHR :: EGLSyncKHR
  strayFence :: EGLSyncKHR

definition GL_NO_ERROR :: GLenum where
  "GL_NO_ERROR = 0"

text \<open>\<^verbatim>\<open>createImage\<close> (lines 427 to 441).\<close>

definition createImage ::
  "platform \<Rightarrow> EGLDisplay \<Rightarrow> GraphicBuffer option \<Rightarrow> (EGLImageKHR \<times> effect list) outcome" where
  "createImage env dpy graphicBuffer =
     (case graphicBuffer of
        None \<Rightarrow> Fault NullDereference
      | Some b \<Rightarrow> Returned (eglCreateImageKHR env, [EglCreateImageKHR dpy b]))"

text \<open>
  The function is given in five parts, each handing over to the next; every part takes
  the effects so far and a return is a return of \<^verbatim>\<open>updateTexImage\<close>.

  Lines 266 to 292: the old buffer is released and the state updated. The load
  \<^verbatim>\<open>mEGLSlots[mCurrentTexture].mFence\<close> is not guarded: with \<^verbatim>\<open>mCurrentTexture\<close> outside
  the table it is recorded and yields \<open>strayFence\<close>.
\<close>

definition commitFrame ::
  "SurfaceTexture \<Rightarrow> platform \<Rightarrow> EGLDisplay \<Rightarrow> BufferItem \<Rightarrow> effect list \<Rightarrow>
   (status_t \<times> SurfaceTexture \<times> effect list) outcome" where
  "commitFrame st env dpy item es =
     (let buf = mBuf item;
          cur = mCurrentTexture st;
          inside = (0 \<le> cur \<and> cur < NUM_BUFFER_SLOTS);
          fence = (if inside then mFence (mEGLSlots st ! nat cur) else strayFence env);
          es1 = es @ (if inside then [] else [LoadOutsideSlots cur]) @
                  [ReleaseBuffer cur dpy fence];
          st1 = st\<lparr>mCurrentTexture := buf,
                   mCurrentTextureBuf := mGraphicBuffer (mEGLSlots st ! nat buf),
                   mCurrentCrop := mCrop item,
                   mCurrentTransform := mTransform item,
                   mCurrentScalingMode := mScalingMode item,
                   mCurrentTimestamp := mTimestamp item\<rparr>
      in case computeCurrentTransformMatrix st1 of
           Fault f \<Rightarrow> Fault f
         | Returned st2 \<Rightarrow> Returned (OK, st2, es1))"

text \<open>Lines 250 to 264: the fence for the slot that stops being current.\<close>

definition fenceHandoff ::
  "SurfaceTexture \<Rightarrow> platform \<Rightarrow> EGLDisplay \<Rightarrow> BufferItem \<Rightarrow> effect list \<Rightarrow>
   (status_t \<times> SurfaceTexture \<times> effect list) outcome" where
  "fenceHandoff st env dpy item es =
     (let buf = mBuf item; cur = mCurrentTexture st
      in if cur \<noteq> INVALID_BUFFER_SLOT then
           if mUseFenceSync st then
             let fence = eglCreateSyncKHR env;
                 es1 = es @ [EglCreateSyncKHR dpy]
             in if fence = EGL_NO_SYNC_KHR then
                  Returned (- EINVAL, st,
                    es1 @ [ReleaseBuffer buf dpy (mFence (mEGLSlots st ! nat buf))])
                else if 0 \<le> cur \<and> cur < NUM_BUFFER_SLOTS then
                  commitFrame
                    (st\<lparr>mEGLSlots :=
                          (mEGLSlots st)[nat cur := (mEGLSlots st ! nat cur)\<lparr>mFence := fence\<rparr>]\<rparr>)
                    env dpy item (es1 @ [GlFlush])
                else Fault (SlotIndexOutOfBounds cur)
           else commitFrame st env dpy item es
         else commitFrame st env dpy item es)"

text \<open>
  The loop of lines 240 to 244 over what \<^verbatim>\<open>glGetError\<close> returns. The loop of lines 232
  to 234 before the bind only logs the pending errors.
\<close>

fun bindErrors :: "GLenum list \<Rightarrow> bool \<Rightarrow> bool" where
  "bindErrors [] failed = failed"
| "bindErrors (error # errors) failed =
     (if error \<noteq> GL_NO_ERROR then bindErrors errors True else failed)"

text \<open>Lines 231 to 248: the texture is bound and the image attached to it.\<close>

definition bindImage ::
  "SurfaceTexture \<Rightarrow> platform \<Rightarrow> EGLDisplay \<Rightarrow> BufferItem \<Rightarrow> EGLImageKHR \<Rightarrow> effect list \<Rightarrow>
   (status_t \<times> SurfaceTexture \<times> effect list) outcome" where
  "bindImage st env dpy item img es =
     (let buf = mBuf item;
          es1 = es @ [GlBindTexture (mTexTarget st) (mTexName st),
                      GlEGLImageTargetTexture2DOES (mTexTarget st) img];
          failed = bindErrors (glGetError_after_bind env) False
      in if failed then
           Returned (- EINVAL, st,
             es1 @ [ReleaseBuffer buf dpy (mFence (mEGLSlots st ! nat buf))])
         else fenceHandoff st env dpy item es1)"

text \<open>Lines 215 to 229: the image of the slot, created when the slot has none.\<close>

definition updateImage ::
  "SurfaceTexture \<Rightarrow> platform \<Rightarrow> EGLDisplay \<Rightarrow> BufferItem \<Rightarrow> effect list \<Rightarrow>
   (status_t \<times> SurfaceTexture \<times> effect list) outcome" where
  "updateImage st env dpy item es =
     (let buf = mBuf item;
          img = mEglImage (mEGLSlots st ! nat buf)
      in if img = EGL_NO_IMAGE_KHR then
           if mGraphicBuffer_item item = None then Returned (BAD_VALUE, st, es)
           else
             (case createImage env dpy (mGraphicBuffer_item item) of
                Fault f \<Rightarrow> Fault f
              | Returned (created, es') \<Rightarrow>
                  let st1 = st\<lparr>mEGLSlots :=
                        (mEGLSlots st)[nat buf := (mEGLSlots st ! nat buf)\<lparr>mEglImage := created\<rparr>]\<rparr>
                  in if created = EGL_NO_IMAGE_KHR then Returned (- EINVAL, st1, es @ es')
                     else bindImage st1 env dpy item created (es @ es'))
         else bindImage st env dpy item img es)"

text \<open>Lines 205 to 213: a newly allocated buffer replaces what the slot held.\<close>

definition installBuffer ::
  "SurfaceTexture \<Rightarrow> EGLDisplay \<Rightarrow> BufferItem \<Rightarrow> SurfaceTexture \<times> effect list" where
  "installBuffer st dpy item =
     (let buf = mBuf item
      in if mGraphicBuffer_item item \<noteq> None then
           let slot0 = (mEGLSlots st ! nat buf)\<lparr>mGraphicBuffer := None\<rparr>;
               (slot1, destroyed) =
                 (if mEglImage slot0 \<noteq> EGL_NO_IMAGE_KHR
                  then (slot0\<lparr>mEglImage := EGL_NO_IMAGE_KHR\<rparr>,
                        [EglDestroyImageKHR dpy (mEglImage slot0)])
                  else (slot0, []))
           in (st\<lparr>mEGLSlots :=
                    (mEGLSlots st)[nat buf := slot1\<lparr>mGraphicBuffer := mGraphicBuffer_item item\<rparr>]\<rparr>,
               ClearGraphicBuffer buf # destroyed)
         else (st, []))"

text \<open>
  \<^verbatim>\<open>updateTexImage\<close> (lines 173 to 293). The slot \<^verbatim>\<open>item.mBuf\<close> indexes the table
  unchecked; a slot outside the table is a fault.
\<close>

definition updateTexImage ::
  "SurfaceTexture \<Rightarrow> platform \<Rightarrow> (status_t \<times> SurfaceTexture \<times> effect list) outcome" where
  "updateTexImage st env =
     (if mAbandoned st then Returned (NO_INIT, st, [])
      else
        let dpy = eglGetCurrentDisplay env;
            ctx = eglGetCurrentContext env
        in if mEglDisplay st \<noteq> dpy \<and> mEglDisplay st \<noteq> EGL_NO_DISPLAY then
             Returned (- EINVAL, st, [])
           else if mEglContext st \<noteq> ctx \<and> mEglContext st \<noteq> EGL_NO_CONTEXT then
             Returned (- EINVAL, st, [])
           else
             let st1 = st\<lparr>mEglDisplay := dpy, mEglContext := ctx\<rparr>
             in case mBufferQueue st1 of
                  None \<Rightarrow> Fault NullDereference
                | Some q \<Rightarrow>
                    if fst (acquireBuffer env) = NO_ERROR then
                      let item = snd (acquireBuffer env);
                          buf = mBuf item
                      in if 0 \<le> buf \<and> buf < NUM_BUFFER_SLOTS then
                           (case installBuffer st1 dpy item of
                              (st2, es) \<Rightarrow> updateImage st2 env dpy item (AcquireBuffer # es))
                         else Fault (SlotIndexOutOfBounds buf)
                    else
                      Returned (OK, st1,
                        [AcquireBuffer, GlBindTexture (mTexTarget st1) (mTexName st1)]))"

subsection \<open>Traces and example instances\<close>

text \<open>\<open>precedes a b es\<close>: the first \<open>a\<close> of the trace \<open>es\<close> has a \<open>b\<close> after it.\<close>

primrec precedes :: "'a \<Rightarrow> 'a \<Rightarrow> 'a list \<Rightarrow> bool" where
  "precedes a b [] = False"
| "precedes a b (x # xs) = (if x = a then b \<in> set xs else precedes a b xs)"

definition effects_of :: "('a \<times> effect list) outcome \<Rightarrow> effect list" where
  "effects_of r = (case r of Returned (x, es) \<Rightarrow> es | Fault f \<Rightarrow> [])"

text \<open>
  A newly constructed instance with a queue of its own; a 256 by 256 buffer; and the
  instance after three frames in the slots 0, 1 and 2 on display 1 and context 1, the
  last one current.
\<close>

definition example_instance :: SurfaceTexture where
  "example_instance =
     fst (SurfaceTexture_ctor False 1 True 0x8D65 False None 100 0 1 NO_ERROR
            \<lparr>left = 0, top' = 0, right = 0, bottom = 0\<rparr> 0)"

definition example_buffer :: GraphicBuffer where
  "example_buffer = \<lparr>handle = 7, getWidth = 256, getHeight = 256\<rparr>"

definition example_holding :: SurfaceTexture where
  "example_holding =
     example_instance
       \<lparr>mCurrentTextureBuf := Some example_buffer,
        mCurrentCrop := \<lparr>left = 1, top' = 1, right = 255, bottom = 255\<rparr>,
        mCurrentTimestamp := 3,
        mEglDisplay := 1,
        mEglContext := 1,
        mCurrentTexture := 2,
        mEGLSlots :=
          [\<lparr>mGraphicBuffer = Some example_buffer, mEglImage = 5, mFence = 0\<rparr>,
           \<lparr>mGraphicBuffer = Some example_buffer, mEglImage = 6, mFence = 0\<rparr>,
           \<lparr>mGraphicBuffer = Some example_buffer, mEglImage = 7, mFence = 0\<rparr>]
          @ replicate 29 EGLSlot_ctor\<rparr>"

definition example_item :: BufferItem where
  "example_item =
     \<lparr>mGraphicBuffer_item = Some example_buffer,
      mCrop = \<lparr>left = 0, top' = 0, right = 0, bottom = 0\<rparr>,
      mTransform = 0,
      mScalingMode = 0,
      mTimestamp = 1,
      mBuf = 0\<rparr>"

text \<open>
  A platform on display 1 and context 1 whose queue hands over \<open>example_item\<close> and where
  every call succeeds.
\<close>

definition example_platform :: platform where
  "example_platform =
     \<lparr>eglGetCurrentDisplay = 1,
      eglGetCurrentContext = 1,
      acquireBuffer = (NO_ERROR, example_item),
      eglCreateImageKHR = 9,
      glGetError_after_bind = [],
      eglCreateSyncKHR = 11,
      strayFence = 99\<rparr>"

subsection \<open>The current frame and the invariant of the object\<close>

text \<open>
  The part of the object that describes the current frame: slot, buffer, crop,
  transform flags, scaling mode, timestamp and matrix.
\<close>

definition current_state ::
  "SurfaceTexture \<Rightarrow>
   int \<times> GraphicBuffer option \<times> Rect \<times> uint32_t \<times> uint32_t \<times> 64 word \<times> float list" where
  "current_state st =
     (mCurrentTexture st, mCurrentTextureBuf st, mCurrentCrop st, mCurrentTransform st,
      mCurrentScalingMode st, mCurrentTimestamp st, mCurrentTransformMatrix st)"

text \<open>
  The table has \<^verbatim>\<open>NUM_BUFFER_SLOTS\<close> slots, a slot with an image has a buffer, the
  current slot is the sentinel or a slot of the table, and an instance that is not
  abandoned holds its queue.
\<close>

definition invariant :: "SurfaceTexture \<Rightarrow> bool" where
  "invariant st =
     (length (mEGLSlots st) = nat NUM_BUFFER_SLOTS \<and>
      list_all (\<lambda>slot. mEglImage slot = EGL_NO_IMAGE_KHR \<or> mGraphicBuffer slot \<noteq> None)
        (mEGLSlots st) \<and>
      (mCurrentTexture st = INVALID_BUFFER_SLOT \<or>
       0 \<le> mCurrentTexture st \<and> mCurrentTexture st < NUM_BUFFER_SLOTS) \<and>
      (mAbandoned st \<or> mBufferQueue st \<noteq> None))"

definition same_binding :: "SurfaceTexture \<Rightarrow> SurfaceTexture \<Rightarrow> bool" where
  "same_binding st st' =
     (mEglDisplay st' = mEglDisplay st \<and> mEglContext st' = mEglContext st \<and>
      mAbandoned st' = mAbandoned st \<and> mBufferQueue st' = mBufferQueue st)"

text \<open>The newly constructed instance after \<^verbatim>\<open>abandon\<close>.\<close>

definition example_abandoned :: SurfaceTexture where
  "example_abandoned = example_instance\<lparr>mAbandoned := True, mBufferQueue := None\<rparr>"

section \<open>The matrix kernel\<close>

lemma mtxMul_FlipH_FlipH: "mtxMul mtxFlipH mtxFlipH = mtxIdentity"
  by code_simp

lemma mtxMul_FlipV_FlipV: "mtxMul mtxFlipV mtxFlipV = mtxIdentity"
  by code_simp

lemma mtxMul_Rot90_Rot90: "mtxMul mtxRot90 mtxRot90 = mtxRot180"
  by code_simp

lemma mtxMul_Rot90_Rot180: "mtxMul mtxRot90 mtxRot180 = mtxRot270"
  by code_simp

lemma mtxMul_Rot90_Rot270: "mtxMul mtxRot90 mtxRot270 = mtxIdentity"
  by code_simp

text \<open>
  Claim C10. Under \<open>mtxMul\<close>, the horizontal flip composed with itself is the identity
  matrix, the vertical flip composed with itself is the identity matrix, and the
  rotation by 90 degrees composed with itself four times is the identity matrix; the
  equalities are exact, every product and sum being of entries \<open>-1\<close>, \<open>0\<close> and \<open>1\<close>.
\<close>

theorem flip_involutions:
  "mtxMul mtxFlipH mtxFlipH = mtxIdentity \<and>
   mtxMul mtxFlipV mtxFlipV = mtxIdentity \<and>
   mtxMul mtxRot90 (mtxMul mtxRot90 (mtxMul mtxRot90 mtxRot90)) = mtxIdentity"
  by (simp add: mtxMul_FlipH_FlipH mtxMul_FlipV_FlipV mtxMul_Rot90_Rot90
      mtxMul_Rot90_Rot180 mtxMul_Rot90_Rot270)

section \<open>The transform composer\<close>

lemma cropTransform_dimensions:
  "getWidth b = getWidth b' \<Longrightarrow> getHeight b = getHeight b' \<Longrightarrow>
   cropTransform crop b = cropTransform crop b'"
  by (simp add: cropTransform_def)

lemma cropTransform_example:
  "cropTransform \<lparr>left = 1, top' = 1, right = 255, bottom = 255\<rparr> example_buffer =
   (Finite (2 / 256), Finite (2 / 256), Finite ((254 - 2) / 256), Finite ((254 - 2) / 256))"
  by code_simp

lemma crop_example_not_empty:
  "\<not> isEmpty \<lparr>left = 1, top' = 1, right = 255, bottom = 255\<rparr>"
  by code_simp

lemma cropMatrix_example_identity:
  "mtxMul (cropMatrix (Finite (2 / 256), Finite (2 / 256), Finite ((254 - 2) / 256),
                        Finite ((254 - 2) / 256))) mtxIdentity =
   cropMatrix (Finite (2 / 256), Finite (2 / 256), Finite ((254 - 2) / 256),
               Finite ((254 - 2) / 256))"
  by code_simp

lemma flipV_cropMatrix_example:
  "mtxMul mtxFlipV
     (cropMatrix (Finite (2 / 256), Finite (2 / 256), Finite ((254 - 2) / 256),
                  Finite ((254 - 2) / 256))) =
   [Finite ((254 - 2) / 256), 0, 0, 0,
    0, Finite (- ((254 - 2) / 256)), 0, 0,
    0, 0, 1, 0,
    Finite (2 / 256), Finite (1 - 2 / 256), 0, 1]"
  by code_simp

text \<open>
  Claim C5. With transform flags 0, the crop \<open>(left = 1, top = 1, right = 255, bottom = 255)\<close>
  and a buffer of 256 by 256, the crop part of \<^verbatim>\<open>computeCurrentTransformMatrix\<close> computes
  \<open>tx = 2/256\<close>, \<open>ty = 2/256\<close>, \<open>sx = (254 - 2)/256\<close> and \<open>sy = (254 - 2)/256\<close>, and
  the matrix it stores is the vertical flip multiplied by the crop matrix with diagonal
  \<open>(sx, sy, 1, 1)\<close> and translation column \<open>(tx, ty, 0, 1)\<close>; the entries of that product
  are listed.
\<close>

theorem crop_scenario_S3:
  assumes "mCurrentTransform st = 0"
    and "mCurrentCrop st = \<lparr>left = 1, top' = 1, right = 255, bottom = 255\<rparr>"
    and "mCurrentTextureBuf st = Some buf"
    and "getWidth buf = 256" and "getHeight buf = 256"
  shows "cropTransform (mCurrentCrop st) buf =
           (Finite (2 / 256), Finite (2 / 256), Finite ((254 - 2) / 256),
            Finite ((254 - 2) / 256)) \<and>
         computeCurrentTransformMatrix st =
           Returned (st\<lparr>mCurrentTransformMatrix :=
             mtxMul mtxFlipV
               (cropMatrix (Finite (2 / 256), Finite (2 / 256), Finite ((254 - 2) / 256),
                            Finite ((254 - 2) / 256)))\<rparr>) \<and>
         mtxMul mtxFlipV
           (cropMatrix (Finite (2 / 256), Finite (2 / 256), Finite ((254 - 2) / 256),
                        Finite ((254 - 2) / 256))) =
           [Finite ((254 - 2) / 256), 0, 0, 0,
            0, Finite (- ((254 - 2) / 256)), 0, 0,
            0, 0, 1, 0,
            Finite (2 / 256), Finite (1 - 2 / 256), 0, 1]"
proof -
  have "cropTransform (mCurrentCrop st) buf =
        cropTransform \<lparr>left = 1, top' = 1, right = 255, bottom = 255\<rparr> example_buffer"
    using assms(2,4,5) by (simp add: cropTransform_dimensions [of buf example_buffer] example_buffer_def)
  then have c: "cropTransform (mCurrentCrop st) buf =
           (Finite (2 / 256), Finite (2 / 256), Finite ((254 - 2) / 256),
            Finite ((254 - 2) / 256))"
    by (simp only: cropTransform_example)
  have e: "\<not> isEmpty (mCurrentCrop st)"
    using assms(2) crop_example_not_empty by simp
  have "computeCurrentTransformMatrix st =
        Returned (st\<lparr>mCurrentTransformMatrix :=
          mtxMul mtxFlipV (mtxMul (cropMatrix (cropTransform (mCurrentCrop st) buf)) mtxIdentity)\<rparr>)"
    using assms(1,3) e by (simp add: computeCurrentTransformMatrix_def Let_def)
  then have "computeCurrentTransformMatrix st =
           Returned (st\<lparr>mCurrentTransformMatrix :=
             mtxMul mtxFlipV
               (cropMatrix (Finite (2 / 256), Finite (2 / 256), Finite ((254 - 2) / 256),
                            Finite ((254 - 2) / 256)))\<rparr>)"
    by (simp only: c cropMatrix_example_identity)
  then show ?thesis using c flipV_cropMatrix_example by (intro conjI)
qed

text \<open>
  The scenario on the example instance after three frames, whose crop and buffer are
  those of the claim.
\<close>

theorem crop_scenario_S3_witness:
  "mCurrentTransform example_holding = 0 \<and>
   mCurrentCrop example_holding = \<lparr>left = 1, top' = 1, right = 255, bottom = 255\<rparr> \<and>
   mCurrentTextureBuf example_holding = Some example_buffer \<and>
   getWidth example_buffer = 256 \<and> getHeight example_buffer = 256 \<and>
   computeCurrentTransformMatrix example_holding =
     Returned (example_holding\<lparr>mCurrentTransformMatrix :=
       [Finite (63 / 64), 0, 0, 0,
        0, Finite (- (63 / 64)), 0, 0,
        0, 0, 1, 0,
        Finite (1 / 128), Finite (127 / 128), 0, 1]\<rparr>)"
proof -
  have h: "mCurrentTransform example_holding = 0"
    "mCurrentCrop example_holding = \<lparr>left = 1, top' = 1, right = 255, bottom = 255\<rparr>"
    "mCurrentTextureBuf example_holding = Some example_buffer"
    "getWidth example_buffer = 256" "getHeight example_buffer = 256"
    by code_simp+
  from crop_scenario_S3 [OF h] show ?thesis using h by simp
qed

lemma empty_crop_matrix: "mtxMul mtxFlipV (mtxMul (cropMatrix (0, 0, 1, 1)) mtxIdentity) = mtxFlipV"
  by code_simp

text \<open>
  Claim C6. Whatever the dimensions of the current buffer (and also without a buffer),
  when the current crop is empty and the current transform flags are 0, the matrix that
  \<^verbatim>\<open>computeCurrentTransformMatrix\<close> stores is the literal \<open>mtxFlipV\<close>.
\<close>

theorem empty_crop_identity:
  assumes "isEmpty (mCurrentCrop st)" and "mCurrentTransform st = 0"
  shows "computeCurrentTransformMatrix st = Returned (st\<lparr>mCurrentTransformMatrix := mtxFlipV\<rparr>)"
  using assms by (simp add: computeCurrentTransformMatrix_def empty_crop_matrix)

text \<open>
  Scenario S1: flags 0, an empty crop and a buffer of 256 by 256.
\<close>

theorem empty_crop_identity_witness:
  "isEmpty \<lparr>left = 0, top' = 0, right = 0, bottom = 0\<rparr> \<and>
   mCurrentTransform example_holding = 0 \<and>
   mCurrentTextureBuf example_holding = Some \<lparr>handle = 7, getWidth = 256, getHeight = 256\<rparr> \<and>
   computeCurrentTransformMatrix
     (example_holding\<lparr>mCurrentCrop := \<lparr>left = 0, top' = 0, right = 0, bottom = 0\<rparr>\<rparr>) =
   Returned (example_holding\<lparr>mCurrentCrop := \<lparr>left = 0, top' = 0, right = 0, bottom = 0\<rparr>,
                             mCurrentTransformMatrix := mtxFlipV\<rparr>)"
proof -
  let ?st = "example_holding\<lparr>mCurrentCrop := \<lparr>left = 0, top' = 0, right = 0, bottom = 0\<rparr>\<rparr>"
  have e: "isEmpty \<lparr>left = 0, top' = 0, right = 0, bottom = 0\<rparr>" by code_simp
  then have h1: "isEmpty (mCurrentCrop ?st)" by simp
  have t: "mCurrentTransform example_holding = 0" by code_simp
  then have h2: "mCurrentTransform ?st = 0" by simp
  have b: "mCurrentTextureBuf example_holding = Some \<lparr>handle = 7, getWidth = 256, getHeight = 256\<rparr>"
    by code_simp
  from empty_crop_identity [OF h1 h2] show ?thesis using e t b by simp
qed

section \<open>Slots\<close>

lemma freeBufferLocked_Returned:
  "0 \<le> i \<Longrightarrow> i < NUM_BUFFER_SLOTS \<Longrightarrow>
   freeBufferLocked st i =
     Returned (st\<lparr>mEGLSlots := (mEGLSlots st)[nat i :=
                  (mEGLSlots st ! nat i)\<lparr>mGraphicBuffer := None, mEglImage := EGL_NO_IMAGE_KHR\<rparr>]\<rparr>,
               ClearGraphicBuffer i #
                 (if mEglImage (mEGLSlots st ! nat i) \<noteq> EGL_NO_IMAGE_KHR
                  then [EglDestroyImageKHR (mEglDisplay st) (mEglImage (mEGLSlots st ! nat i))]
                  else []))"
  apply (simp add: freeBufferLocked_def Let_def)
  apply (cases "mEGLSlots st ! nat i")
  apply simp
  done

lemma onBuffersReleased_loop_Returned:
  "0 \<le> i \<Longrightarrow>
   \<exists>slots es. onBuffersReleased_loop m i st = Returned (st\<lparr>mEGLSlots := slots\<rparr>, es) \<and>
      length slots = length (mEGLSlots st) \<and>
      (\<forall>j < length slots. slots ! j =
         (if nat i \<le> j \<and> int j < NUM_BUFFER_SLOTS \<and> bit m j
          then (mEGLSlots st ! j)\<lparr>mGraphicBuffer := None, mEglImage := EGL_NO_IMAGE_KHR\<rparr>
          else mEGLSlots st ! j))"
proof (induction m i st rule: onBuffersReleased_loop.induct)
  case (1 m i st)
  show ?case
  proof (cases "i < NUM_BUFFER_SLOTS")
    case False
    then have "onBuffersReleased_loop m i st = Returned (st\<lparr>mEGLSlots := mEGLSlots st\<rparr>, [])"
      by (simp add: onBuffersReleased_loop.simps)
    moreover have "\<not> (nat i \<le> j \<and> int j < NUM_BUFFER_SLOTS)" for j
      using False "1.prems" by auto
    ultimately show ?thesis
      by (intro exI [of _ "mEGLSlots st"] exI [of _ "[]"]) auto
  next
    case inside: True
    show ?thesis
    proof (cases "bit m (nat i)")
      case False
      then have nb: "\<not> m AND push_bit (nat i) 1 \<noteq> 0"
        by (simp add: bit_iff_and_push_bit_not_eq_0)
      from "1.IH"(2) [OF inside nb] "1.prems"
      obtain slots es where
        r: "onBuffersReleased_loop m (i + 1) st = Returned (st\<lparr>mEGLSlots := slots\<rparr>, es)" and
        l: "length slots = length (mEGLSlots st)" and
        s: "\<forall>j < length slots. slots ! j =
             (if nat (i + 1) \<le> j \<and> int j < NUM_BUFFER_SLOTS \<and> bit m j
              then (mEGLSlots st ! j)\<lparr>mGraphicBuffer := None, mEglImage := EGL_NO_IMAGE_KHR\<rparr>
              else mEGLSlots st ! j)"
        by auto
      have "onBuffersReleased_loop m i st = Returned (st\<lparr>mEGLSlots := slots\<rparr>, es)"
        using inside nb r by (subst onBuffersReleased_loop.simps) simp
      moreover have "\<forall>j < length slots. slots ! j =
             (if nat i \<le> j \<and> int j < NUM_BUFFER_SLOTS \<and> bit m j
              then (mEGLSlots st ! j)\<lparr>mGraphicBuffer := None, mEglImage := EGL_NO_IMAGE_KHR\<rparr>
              else mEGLSlots st ! j)"
      proof (intro allI impI)
        fix j assume j: "j < length slots"
        have "j = nat i \<Longrightarrow> \<not> bit m j" using False by simp
        moreover have "nat (i + 1) \<le> j \<longleftrightarrow> nat i \<le> j \<and> j \<noteq> nat i"
          using "1.prems" by auto
        ultimately show "slots ! j =
             (if nat i \<le> j \<and> int j < NUM_BUFFER_SLOTS \<and> bit m j
              then (mEGLSlots st ! j)\<lparr>mGraphicBuffer := None, mEglImage := EGL_NO_IMAGE_KHR\<rparr>
              else mEGLSlots st ! j)"
          using s j by auto
      qed
      ultimately show ?thesis using l by blast
    next
      case True
      then have b: "m AND push_bit (nat i) 1 \<noteq> 0"
        by (simp add: bit_iff_and_push_bit_not_eq_0)
      define st1 where "st1 = st\<lparr>mEGLSlots := (mEGLSlots st)[nat i :=
                  (mEGLSlots st ! nat i)\<lparr>mGraphicBuffer := None, mEglImage := EGL_NO_IMAGE_KHR\<rparr>]\<rparr>"
      define es1 where "es1 = ClearGraphicBuffer i #
                 (if mEglImage (mEGLSlots st ! nat i) \<noteq> EGL_NO_IMAGE_KHR
                  then [EglDestroyImageKHR (mEglDisplay st) (mEglImage (mEGLSlots st ! nat i))]
                  else [])"
      have f: "freeBufferLocked st i = Returned (st1, es1)"
        unfolding st1_def es1_def using "1.prems" inside by (rule freeBufferLocked_Returned)
      have "0 \<le> i + 1" using "1.prems" by simp
      from "1.IH"(1) [OF inside b f refl this]
      obtain slots es where
        r: "onBuffersReleased_loop m (i + 1) st1 = Returned (st1\<lparr>mEGLSlots := slots\<rparr>, es)" and
        l: "length slots = length (mEGLSlots st1)" and
        s: "\<forall>j < length slots. slots ! j =
             (if nat (i + 1) \<le> j \<and> int j < NUM_BUFFER_SLOTS \<and> bit m j
              then (mEGLSlots st1 ! j)\<lparr>mGraphicBuffer := None, mEglImage := EGL_NO_IMAGE_KHR\<rparr>
              else mEGLSlots st1 ! j)"
        by auto
      have st1': "st1\<lparr>mEGLSlots := slots\<rparr> = st\<lparr>mEGLSlots := slots\<rparr>"
        by (simp add: st1_def)
      have "onBuffersReleased_loop m i st = Returned (st\<lparr>mEGLSlots := slots\<rparr>, es1 @ es)"
        using inside b f r st1' by (subst onBuffersReleased_loop.simps) simp
      moreover have l': "length slots = length (mEGLSlots st)"
        using l by (simp add: st1_def)
      moreover have "\<forall>j < length slots. slots ! j =
             (if nat i \<le> j \<and> int j < NUM_BUFFER_SLOTS \<and> bit m j
              then (mEGLSlots st ! j)\<lparr>mGraphicBuffer := None, mEglImage := EGL_NO_IMAGE_KHR\<rparr>
              else mEGLSlots st ! j)"
      proof (intro allI impI)
        fix j assume j: "j < length slots"
        have e: "nat (i + 1) \<le> j \<longleftrightarrow> nat i \<le> j \<and> j \<noteq> nat i"
          using "1.prems" by auto
        show "slots ! j =
             (if nat i \<le> j \<and> int j < NUM_BUFFER_SLOTS \<and> bit m j
              then (mEGLSlots st ! j)\<lparr>mGraphicBuffer := None, mEglImage := EGL_NO_IMAGE_KHR\<rparr>
              else mEGLSlots st ! j)"
        proof (cases "j = nat i")
          case True
          then have "slots ! j = mEGLSlots st1 ! j" using s j e by simp
          also have "\<dots> = (mEGLSlots st ! j)\<lparr>mGraphicBuffer := None, mEglImage := EGL_NO_IMAGE_KHR\<rparr>"
            using True j l' by (simp add: st1_def)
          finally show ?thesis using True \<open>bit m (nat i)\<close> inside "1.prems" by simp
        next
          case False
          then have "mEGLSlots st1 ! j = mEGLSlots st ! j" by (simp add: st1_def)
          then show ?thesis using s j e False by simp
        qed
      qed
      ultimately show ?thesis by blast
    qed
  qed
qed

text \<open>
  Claim C9, as the code has it. \<^verbatim>\<open>freeBufferLocked\<close> on a slot of the table first
  clears the slot's buffer reference and then destroys the slot's image, when it has
  one, in that order; afterwards both fields are empty, and freeing the slot again
  leaves the object as it is and destroys nothing.
\<close>

theorem freeBufferLocked_clears_then_destroys:
  fixes st :: SurfaceTexture and i :: int
  defines "slot \<equiv> mEGLSlots st ! nat i"
  defines "st' \<equiv> st\<lparr>mEGLSlots := (mEGLSlots st)
             [nat i := slot\<lparr>mGraphicBuffer := None, mEglImage := EGL_NO_IMAGE_KHR\<rparr>]\<rparr>"
  assumes "0 \<le> i" and "i < NUM_BUFFER_SLOTS" and "length (mEGLSlots st) = nat NUM_BUFFER_SLOTS"
  shows "freeBufferLocked st i =
           Returned (st', ClearGraphicBuffer i #
             (if mEglImage slot \<noteq> EGL_NO_IMAGE_KHR
              then [EglDestroyImageKHR (mEglDisplay st) (mEglImage slot)] else [])) \<and>
         mGraphicBuffer (mEGLSlots st' ! nat i) = None \<and>
         mEglImage (mEGLSlots st' ! nat i) = EGL_NO_IMAGE_KHR \<and>
         freeBufferLocked st' i = Returned (st', [ClearGraphicBuffer i])"
proof -
  have len: "nat i < length (mEGLSlots st)" using assms(3-5) by simp
  have 1: "freeBufferLocked st i =
           Returned (st', ClearGraphicBuffer i #
             (if mEglImage slot \<noteq> EGL_NO_IMAGE_KHR
              then [EglDestroyImageKHR (mEglDisplay st) (mEglImage slot)] else []))"
    unfolding st'_def slot_def using assms(3,4) by (rule freeBufferLocked_Returned)
  have 2: "mEGLSlots st' ! nat i = slot\<lparr>mGraphicBuffer := None, mEglImage := EGL_NO_IMAGE_KHR\<rparr>"
    using len by (simp add: st'_def)
  have "freeBufferLocked st' i =
        Returned (st'\<lparr>mEGLSlots := (mEGLSlots st')[nat i :=
                  (mEGLSlots st' ! nat i)\<lparr>mGraphicBuffer := None, mEglImage := EGL_NO_IMAGE_KHR\<rparr>]\<rparr>,
               ClearGraphicBuffer i #
                 (if mEglImage (mEGLSlots st' ! nat i) \<noteq> EGL_NO_IMAGE_KHR
                  then [EglDestroyImageKHR (mEglDisplay st') (mEglImage (mEGLSlots st' ! nat i))]
                  else []))"
    using assms(3,4) by (rule freeBufferLocked_Returned)
  also have "\<dots> = Returned (st', [ClearGraphicBuffer i])"
    unfolding 2 by (simp add: st'_def)
  finally show ?thesis using 1 2 by simp
qed

text \<open>
  Slot 0 of the example instance after three frames holds a buffer and the image 5.
\<close>

theorem freeBufferLocked_clears_then_destroys_witness:
  "(0 :: int) \<le> 0 \<and> 0 < NUM_BUFFER_SLOTS \<and>
   length (mEGLSlots example_holding) = nat NUM_BUFFER_SLOTS \<and>
   freeBufferLocked example_holding 0 =
     Returned (example_holding\<lparr>mEGLSlots := (mEGLSlots example_holding)[0 := EGLSlot_ctor]\<rparr>,
               [ClearGraphicBuffer 0, EglDestroyImageKHR 1 5]) \<and>
   freeBufferLocked
     (example_holding\<lparr>mEGLSlots := (mEGLSlots example_holding)[0 := EGLSlot_ctor]\<rparr>) 0 =
     Returned (example_holding\<lparr>mEGLSlots := (mEGLSlots example_holding)[0 := EGLSlot_ctor]\<rparr>,
               [ClearGraphicBuffer 0])"
proof -
  have h: "(0 :: int) \<le> 0" "0 < NUM_BUFFER_SLOTS"
    "length (mEGLSlots example_holding) = nat NUM_BUFFER_SLOTS"
    by code_simp+
  have s: "mEGLSlots example_holding ! 0 =
           \<lparr>mGraphicBuffer = Some example_buffer, mEglImage = 5, mFence = 0\<rparr>"
    "mEglDisplay example_holding = 1" "EGL_NO_IMAGE_KHR = 0"
    "EGLSlot_ctor = \<lparr>mGraphicBuffer = None, mEglImage = 0, mFence = 0\<rparr>"
    by code_simp+
  from freeBufferLocked_clears_then_destroys [OF h] show ?thesis
    using h by (simp add: s)
qed

text \<open>
  Claim C9 as stated, that the image is destroyed first and the buffer reference
  cleared after it, fails on slot 0 of that instance: the buffer reference is cleared
  first.
\<close>

theorem freeBufferLocked_image_not_first:
  "mGraphicBuffer (mEGLSlots example_holding ! 0) = Some example_buffer \<and>
   mEglImage (mEGLSlots example_holding ! 0) = 5 \<and>
   effects_of (freeBufferLocked example_holding 0) =
     [ClearGraphicBuffer 0, EglDestroyImageKHR 1 5] \<and>
   \<not> precedes (EglDestroyImageKHR 1 5) (ClearGraphicBuffer 0)
        (effects_of (freeBufferLocked example_holding 0))"
  by code_simp

text \<open>
  Claim C7. After \<^verbatim>\<open>onBuffersReleased\<close> on an instance that is not abandoned, the queue
  reporting the reclaimed-slot mask \<open>m\<close>: every slot whose bit is set in \<open>m\<close> has neither
  image nor buffer, the current slot is \<^verbatim>\<open>INVALID_BUFFER_SLOT\<close>, and the current buffer,
  crop, transform flags, scaling mode, timestamp and matrix are unchanged.
\<close>

theorem onBuffersReleased_reclaims:
  assumes "\<not> mAbandoned st" and "mBufferQueue st \<noteq> None"
    and "length (mEGLSlots st) = nat NUM_BUFFER_SLOTS"
  shows "\<exists>st' es. onBuffersReleased st m = Returned (st', es) \<and>
           (\<forall>S. bit m S \<longrightarrow>
              mEglImage (mEGLSlots st' ! S) = EGL_NO_IMAGE_KHR \<and>
              mGraphicBuffer (mEGLSlots st' ! S) = None) \<and>
           mCurrentTexture st' = INVALID_BUFFER_SLOT \<and>
           mCurrentTextureBuf st' = mCurrentTextureBuf st \<and>
           mCurrentCrop st' = mCurrentCrop st \<and>
           mCurrentTransform st' = mCurrentTransform st \<and>
           mCurrentScalingMode st' = mCurrentScalingMode st \<and>
           mCurrentTimestamp st' = mCurrentTimestamp st \<and>
           mCurrentTransformMatrix st' = mCurrentTransformMatrix st"
proof -
  obtain slots es where
    r: "onBuffersReleased_loop m 0 st = Returned (st\<lparr>mEGLSlots := slots\<rparr>, es)" and
    l: "length slots = length (mEGLSlots st)" and
    s: "\<forall>j < length slots. slots ! j =
         (if nat 0 \<le> j \<and> int j < NUM_BUFFER_SLOTS \<and> bit m j
          then (mEGLSlots st ! j)\<lparr>mGraphicBuffer := None, mEglImage := EGL_NO_IMAGE_KHR\<rparr>
          else mEGLSlots st ! j)"
    using onBuffersReleased_loop_Returned [of 0 m st] by auto
  obtain q where q: "mBufferQueue st = Some q" using assms(2) by auto
  have o: "onBuffersReleased st m =
      Returned (st\<lparr>mEGLSlots := slots, mCurrentTexture := INVALID_BUFFER_SLOT\<rparr>, GetReleasedBuffers # es)"
    using assms(1) q r by (simp add: onBuffersReleased_def)
  have "mEglImage (slots ! S) = EGL_NO_IMAGE_KHR \<and> mGraphicBuffer (slots ! S) = None" if "bit m S" for S
  proof -
    have "S < 32" using that by (auto dest: bit_imp_le_length)
    then show ?thesis using that s l assms(3) by (simp add: NUM_BUFFER_SLOTS_def)
  qed
  then show ?thesis using o by simp
qed

text \<open>
  Scenario S6: the example instance after three frames and the mask \<open>0b111\<close>.
\<close>

theorem onBuffersReleased_reclaims_witness:
  "\<not> mAbandoned example_holding \<and> mBufferQueue example_holding \<noteq> None \<and>
   length (mEGLSlots example_holding) = nat NUM_BUFFER_SLOTS \<and>
   bit (7 :: uint32_t) 0 \<and> bit (7 :: uint32_t) 1 \<and> bit (7 :: uint32_t) 2 \<and>
   (\<exists>st' es. onBuffersReleased example_holding 7 = Returned (st', es) \<and>
      mEglImage (mEGLSlots st' ! 0) = EGL_NO_IMAGE_KHR \<and> mGraphicBuffer (mEGLSlots st' ! 0) = None \<and>
      mEglImage (mEGLSlots st' ! 1) = EGL_NO_IMAGE_KHR \<and> mGraphicBuffer (mEGLSlots st' ! 1) = None \<and>
      mEglImage (mEGLSlots st' ! 2) = EGL_NO_IMAGE_KHR \<and> mGraphicBuffer (mEGLSlots st' ! 2) = None \<and>
      mCurrentTexture st' = INVALID_BUFFER_SLOT \<and>
      mCurrentTextureBuf st' = Some example_buffer \<and>
      mCurrentCrop st' = \<lparr>left = 1, top' = 1, right = 255, bottom = 255\<rparr> \<and>
      mCurrentTransform st' = 0)"
proof -
  have h1: "\<not> mAbandoned example_holding" by code_simp
  have h2: "mBufferQueue example_holding \<noteq> None" by code_simp
  have h3: "length (mEGLSlots example_holding) = nat NUM_BUFFER_SLOTS" by code_simp
  have b: "bit (7 :: uint32_t) 0" "bit (7 :: uint32_t) 1" "bit (7 :: uint32_t) 2"
    by simp_all
  have c: "mCurrentTextureBuf example_holding = Some example_buffer"
    "mCurrentCrop example_holding = \<lparr>left = 1, top' = 1, right = 255, bottom = 255\<rparr>"
    "mCurrentTransform example_holding = 0"
    by code_simp+
  from onBuffersReleased_reclaims [OF h1 h2 h3, of 7]
  obtain st' es where r: "onBuffersReleased example_holding 7 = Returned (st', es)"
    and s: "\<forall>S. bit (7 :: uint32_t) S \<longrightarrow>
              mEglImage (mEGLSlots st' ! S) = EGL_NO_IMAGE_KHR \<and>
              mGraphicBuffer (mEGLSlots st' ! S) = None"
    and k: "mCurrentTexture st' = INVALID_BUFFER_SLOT"
      "mCurrentTextureBuf st' = mCurrentTextureBuf example_holding"
      "mCurrentCrop st' = mCurrentCrop example_holding"
      "mCurrentTransform st' = mCurrentTransform example_holding"
    by blast
  from s b have "mEglImage (mEGLSlots st' ! 0) = EGL_NO_IMAGE_KHR \<and> mGraphicBuffer (mEGLSlots st' ! 0) = None"
    "mEglImage (mEGLSlots st' ! 1) = EGL_NO_IMAGE_KHR \<and> mGraphicBuffer (mEGLSlots st' ! 1) = None"
    "mEglImage (mEGLSlots st' ! 2) = EGL_NO_IMAGE_KHR \<and> mGraphicBuffer (mEGLSlots st' ! 2) = None"
    by blast+
  then show ?thesis using h1 h2 h3 b r k c by auto
qed

section \<open>Abandon\<close>

lemma abandon_loop_Returned:
  "0 \<le> i \<Longrightarrow> \<exists>slots es. abandon_loop i st = Returned (st\<lparr>mEGLSlots := slots\<rparr>, es)"
proof (induction i st rule: abandon_loop.induct)
  case (1 i st)
  show ?case
  proof (cases "i < NUM_BUFFER_SLOTS")
    case False
    then have "abandon_loop i st = Returned (st\<lparr>mEGLSlots := mEGLSlots st\<rparr>, [])"
      by (simp add: abandon_loop.simps)
    then show ?thesis by blast
  next
    case True
    define st1 where "st1 = st\<lparr>mEGLSlots := (mEGLSlots st)[nat i :=
                  (mEGLSlots st ! nat i)\<lparr>mGraphicBuffer := None, mEglImage := EGL_NO_IMAGE_KHR\<rparr>]\<rparr>"
    define es1 where "es1 = ClearGraphicBuffer i #
                 (if mEglImage (mEGLSlots st ! nat i) \<noteq> EGL_NO_IMAGE_KHR
                  then [EglDestroyImageKHR (mEglDisplay st) (mEglImage (mEGLSlots st ! nat i))]
                  else [])"
    have f: "freeBufferLocked st i = Returned (st1, es1)"
      unfolding st1_def es1_def using "1.prems" True by (rule freeBufferLocked_Returned)
    have "0 \<le> i + 1" using "1.prems" by simp
    from "1.IH" [OF True f refl this]
    obtain slots es where
      r: "abandon_loop (i + 1) st1 = Returned (st1\<lparr>mEGLSlots := slots\<rparr>, es)"
      by auto
    have "st1\<lparr>mEGLSlots := slots\<rparr> = st\<lparr>mEGLSlots := slots\<rparr>"
      by (simp add: st1_def)
    then have "abandon_loop i st = Returned (st\<lparr>mEGLSlots := slots\<rparr>, es1 @ es)"
      using True f r by (subst abandon_loop.simps) simp
    then show ?thesis by blast
  qed
qed

text \<open>
  Claim C1, as the code has it. After \<^verbatim>\<open>abandon\<close> on an instance (one that holds its
  queue, or is abandoned already) the instance is abandoned, \<^verbatim>\<open>updateTexImage\<close> returns
  \<^verbatim>\<open>NO_INIT\<close>, changes nothing and calls nothing, and \<^verbatim>\<open>abandon\<close> and
  \<^verbatim>\<open>onBuffersReleased\<close> change nothing and call nothing. The operations that delegate
  to the buffer queue are not covered.
\<close>

theorem abandoned_instance_is_inert:
  assumes "mAbandoned st \<or> mBufferQueue st \<noteq> None"
  shows "\<exists>st' es. abandon st = Returned (st', es) \<and> mAbandoned st' \<and>
           updateTexImage st' env = Returned (NO_INIT, st', []) \<and>
           abandon st' = Returned (st', []) \<and>
           onBuffersReleased st' m = Returned (st', [])"
proof (cases "mAbandoned st")
  case True
  then show ?thesis
    by (simp add: abandon_def updateTexImage_def onBuffersReleased_def)
next
  case False
  then obtain q where q: "mBufferQueue st = Some q" using assms by auto
  obtain slots es where
    l: "abandon_loop 0 (st\<lparr>mAbandoned := True, mCurrentTextureBuf := None\<rparr>) =
        Returned (st\<lparr>mAbandoned := True, mCurrentTextureBuf := None, mEGLSlots := slots\<rparr>, es)"
    using abandon_loop_Returned [of 0 "st\<lparr>mAbandoned := True, mCurrentTextureBuf := None\<rparr>"]
    by auto
  have "abandon st =
        Returned (st\<lparr>mAbandoned := True, mCurrentTextureBuf := None, mEGLSlots := slots,
                     mBufferQueue := None\<rparr>, es @ [ConsumerDisconnect])"
    using False q l by (simp add: abandon_def)
  then show ?thesis
    by (simp add: abandon_def updateTexImage_def onBuffersReleased_def)
qed

lemma abandon_example_instance:
  "abandon example_instance =
   Returned (example_abandoned, map ClearGraphicBuffer [0..31] @ [ConsumerDisconnect])"
  by code_simp

text \<open>
  The newly constructed example instance, abandoned.
\<close>

theorem abandoned_instance_is_inert_witness:
  "(mAbandoned example_instance \<or> mBufferQueue example_instance \<noteq> None) \<and>
   abandon example_instance =
     Returned (example_abandoned, map ClearGraphicBuffer [0..31] @ [ConsumerDisconnect]) \<and>
   mAbandoned example_abandoned \<and>
   updateTexImage example_abandoned example_platform = Returned (NO_INIT, example_abandoned, []) \<and>
   abandon example_abandoned = Returned (example_abandoned, []) \<and>
   onBuffersReleased example_abandoned 7 = Returned (example_abandoned, [])"
proof -
  have h: "mAbandoned example_instance \<or> mBufferQueue example_instance \<noteq> None"
    by code_simp
  from abandoned_instance_is_inert [OF h, of example_platform 7]
  show ?thesis using h by (simp add: abandon_example_instance)
qed

text \<open>
  Claim C1 as stated, that every public operation is a no-op that returns
  \<^verbatim>\<open>NO_INIT\<close> after \<^verbatim>\<open>abandon\<close>, fails on the abandoned example instance:
  \<^verbatim>\<open>setFrameAvailableListener\<close> still replaces the listener, \<^verbatim>\<open>getTimestamp\<close> returns
  the stored timestamp, and \<^verbatim>\<open>setDefaultBufferSize\<close>, \<^verbatim>\<open>isSynchronousMode\<close> and
  \<^verbatim>\<open>setName\<close> dereference the queue reference that \<^verbatim>\<open>abandon\<close> has cleared.
\<close>

theorem operations_after_abandon_not_inert:
  "abandon example_instance =
     Returned (example_abandoned, map ClearGraphicBuffer [0..31] @ [ConsumerDisconnect]) \<and>
   setFrameAvailableListener example_abandoned (Some 5) \<noteq> example_abandoned \<and>
   sint (getTimestamp example_abandoned) \<noteq> NO_INIT \<and>
   setDefaultBufferSize example_abandoned 1 1 NO_ERROR = Fault NullDereference \<and>
   setDefaultBufferSize example_abandoned 1 1 NO_ERROR \<noteq>
     Returned (NO_INIT, example_abandoned, []) \<and>
   isSynchronousMode example_abandoned True = Fault NullDereference \<and>
   setName example_abandoned ''camera'' = Fault NullDereference"
proof -
  have "mFrameAvailableListener (setFrameAvailableListener example_abandoned (Some 5)) \<noteq>
        mFrameAvailableListener example_abandoned"
    by code_simp
  then have "setFrameAvailableListener example_abandoned (Some 5) \<noteq> example_abandoned"
    by auto
  moreover have "sint (getTimestamp example_abandoned) \<noteq> NO_INIT"
    by code_simp
  ultimately show ?thesis
    by (simp add: abandon_example_instance setDefaultBufferSize_def isSynchronousMode_def
        setName_def example_abandoned_def)
qed

section \<open>Returns of \<^verbatim>\<open>updateTexImage\<close>\<close>

lemma commitFrame_OK:
  "commitFrame st env dpy item es = Returned (r, st', es') \<Longrightarrow> r = OK"
  by (auto simp: commitFrame_def Let_def split: outcome.splits)

lemma fenceHandoff_error:
  "fenceHandoff st env dpy item es = Returned (r, st', es') \<Longrightarrow> r \<noteq> OK \<Longrightarrow>
   r = - EINVAL \<and> st' = st \<and>
   es' = es @ [EglCreateSyncKHR dpy, ReleaseBuffer (mBuf item) dpy (mFence (mEGLSlots st ! nat (mBuf item)))]"
  by (auto simp: fenceHandoff_def Let_def split: if_splits dest: commitFrame_OK)

lemma bindImage_error:
  "bindImage st env dpy item img es = Returned (r, st', es') \<Longrightarrow> r \<noteq> OK \<Longrightarrow>
   r = - EINVAL \<and> st' = st \<and> ReleaseBuffer (mBuf item) dpy (mFence (mEGLSlots st ! nat (mBuf item))) = last es'"
  by (auto simp: bindImage_def Let_def split: if_splits dest: fenceHandoff_error)

lemma updateImage_error:
  "updateImage st env dpy item es = Returned (r, st', es') \<Longrightarrow> r \<noteq> OK \<Longrightarrow>
   current_state st' = current_state st"
  by (auto simp: updateImage_def createImage_def Let_def current_state_def
      split: if_splits option.splits outcome.splits dest: bindImage_error)

lemma installBuffer_current:
  "installBuffer st dpy item = (st', es) \<Longrightarrow> current_state st' = current_state st"
  by (auto simp: installBuffer_def Let_def current_state_def split: if_splits prod.splits)

lemma updateTexImage_error_keeps_current:
  "updateTexImage st env = Returned (r, st', es) \<Longrightarrow> r \<noteq> OK \<Longrightarrow>
   current_state st' = current_state st"
  apply (simp add: updateTexImage_def Let_def split: if_splits option.splits prod.splits)
  apply (auto dest!: updateImage_error installBuffer_current simp: current_state_def)
  done

text \<open>
  The two error returns that leave the acquired slot with the consumer: the only calls
  are the acquire and, in the second, the destruction of a replaced image and the failed
  creation of the new one.
\<close>

lemma updateTexImage_BAD_VALUE:
  assumes "\<not> mAbandoned st" and "mBufferQueue st \<noteq> None"
    and "mEglDisplay st = eglGetCurrentDisplay env \<or> mEglDisplay st = EGL_NO_DISPLAY"
    and "mEglContext st = eglGetCurrentContext env \<or> mEglContext st = EGL_NO_CONTEXT"
    and "acquireBuffer env = (NO_ERROR, item)"
    and "0 \<le> mBuf item" and "mBuf item < NUM_BUFFER_SLOTS"
    and "mGraphicBuffer_item item = None"
    and "mEglImage (mEGLSlots st ! nat (mBuf item)) = EGL_NO_IMAGE_KHR"
  shows "updateTexImage st env =
           Returned (BAD_VALUE,
             st\<lparr>mEglDisplay := eglGetCurrentDisplay env, mEglContext := eglGetCurrentContext env\<rparr>,
             [AcquireBuffer])"
  using assms by (auto simp: updateTexImage_def installBuffer_def updateImage_def Let_def)

lemma updateTexImage_createImage_fails:
  assumes "\<not> mAbandoned st" and "mBufferQueue st \<noteq> None"
    and "mEglDisplay st = eglGetCurrentDisplay env \<or> mEglDisplay st = EGL_NO_DISPLAY"
    and "mEglContext st = eglGetCurrentContext env \<or> mEglContext st = EGL_NO_CONTEXT"
    and "acquireBuffer env = (NO_ERROR, item)"
    and "0 \<le> mBuf item" and "mBuf item < NUM_BUFFER_SLOTS"
    and "length (mEGLSlots st) = nat NUM_BUFFER_SLOTS"
    and "mGraphicBuffer_item item = Some b"
    and "eglCreateImageKHR env = EGL_NO_IMAGE_KHR"
  shows "\<exists>st' es. updateTexImage st env = Returned (- EINVAL, st', es) \<and>
           ReleaseBuffer (mBuf item) (eglGetCurrentDisplay env)
             (mFence (mEGLSlots st' ! nat (mBuf item))) \<notin> set es \<and>
           mGraphicBuffer (mEGLSlots st' ! nat (mBuf item)) = Some b \<and>
           current_state st' = current_state st"
  using assms
  by (auto simp: updateTexImage_def installBuffer_def updateImage_def createImage_def Let_def
      current_state_def)

text \<open>
  Claim C2 fails on the code. On a newly constructed instance, \<^verbatim>\<open>updateTexImage\<close>
  returns \<^verbatim>\<open>BAD_VALUE\<close> when the acquired item has no buffer and its slot no image, and
  \<^verbatim>\<open>-EINVAL\<close> when \<^verbatim>\<open>eglCreateImageKHR\<close> fails; in both cases it has not called
  \<^verbatim>\<open>releaseBuffer\<close> for the acquired slot 0. (The current frame is unchanged at every
  error return: \<open>updateTexImage_error_keeps_current\<close>.)
\<close>

theorem failed_update_keeps_slot_acquired:
  "updateTexImage example_instance
       (example_platform\<lparr>acquireBuffer := (NO_ERROR, example_item\<lparr>mGraphicBuffer_item := None\<rparr>)\<rparr>) =
     Returned (BAD_VALUE, example_instance\<lparr>mEglDisplay := 1, mEglContext := 1\<rparr>, [AcquireBuffer]) \<and>
   updateTexImage example_instance (example_platform\<lparr>eglCreateImageKHR := EGL_NO_IMAGE_KHR\<rparr>) =
     Returned (- EINVAL,
       example_instance
         \<lparr>mEglDisplay := 1, mEglContext := 1,
          mEGLSlots := (mEGLSlots example_instance)
            [0 := \<lparr>mGraphicBuffer = Some example_buffer, mEglImage = EGL_NO_IMAGE_KHR,
                   mFence = EGL_NO_SYNC_KHR\<rparr>]\<rparr>,
       [AcquireBuffer, ClearGraphicBuffer 0, EglCreateImageKHR 1 example_buffer])"
  by code_simp

text \<open>
  Claim C3, as the code has it. When \<^verbatim>\<open>acquireBuffer\<close> returns any status other than
  \<^verbatim>\<open>NO_ERROR\<close> on an instance that is not abandoned and passes the display and context
  checks, \<^verbatim>\<open>updateTexImage\<close> binds the texture to the texture target and returns
  \<^verbatim>\<open>OK\<close>; it has stored the current display and context and nothing else, so the
  current frame is unchanged.
\<close>

theorem acquire_failure_returns_OK:
  assumes "\<not> mAbandoned st" and "mBufferQueue st \<noteq> None"
    and "mEglDisplay st = eglGetCurrentDisplay env \<or> mEglDisplay st = EGL_NO_DISPLAY"
    and "mEglContext st = eglGetCurrentContext env \<or> mEglContext st = EGL_NO_CONTEXT"
    and "fst (acquireBuffer env) \<noteq> NO_ERROR"
  shows "updateTexImage st env =
           Returned (OK,
             st\<lparr>mEglDisplay := eglGetCurrentDisplay env, mEglContext := eglGetCurrentContext env\<rparr>,
             [AcquireBuffer, GlBindTexture (mTexTarget st) (mTexName st)]) \<and>
         current_state (st\<lparr>mEglDisplay := eglGetCurrentDisplay env,
                            mEglContext := eglGetCurrentContext env\<rparr>) = current_state st"
  using assms by (auto simp: updateTexImage_def Let_def current_state_def)

text \<open>
  The example instance after three frames, the queue answering \<^verbatim>\<open>BAD_VALUE\<close>.
\<close>

theorem acquire_failure_returns_OK_witness:
  "\<not> mAbandoned example_holding \<and> mBufferQueue example_holding \<noteq> None \<and>
   (mEglDisplay example_holding = 1 \<or> mEglDisplay example_holding = EGL_NO_DISPLAY) \<and>
   (mEglContext example_holding = 1 \<or> mEglContext example_holding = EGL_NO_CONTEXT) \<and>
   fst (BAD_VALUE, example_item) \<noteq> NO_ERROR \<and>
   updateTexImage example_holding (example_platform\<lparr>acquireBuffer := (BAD_VALUE, example_item)\<rparr>) =
     Returned (OK, example_holding, [AcquireBuffer, GlBindTexture 0x8D65 1])"
proof -
  let ?env = "example_platform\<lparr>acquireBuffer := (BAD_VALUE, example_item)\<rparr>"
  have h1: "\<not> mAbandoned example_holding" by code_simp
  have h2: "mBufferQueue example_holding \<noteq> None" by code_simp
  have h3: "mEglDisplay example_holding = eglGetCurrentDisplay ?env \<or>
            mEglDisplay example_holding = EGL_NO_DISPLAY" by code_simp
  have h4: "mEglContext example_holding = eglGetCurrentContext ?env \<or>
            mEglContext example_holding = EGL_NO_CONTEXT" by code_simp
  have h5: "fst (acquireBuffer ?env) \<noteq> NO_ERROR" by code_simp
  have e: "example_holding\<lparr>mEglDisplay := eglGetCurrentDisplay ?env,
                          mEglContext := eglGetCurrentContext ?env\<rparr> = example_holding"
    by code_simp
  have t: "mTexTarget example_holding = 0x8D65" "mTexName example_holding = 1"
    by code_simp+
  have d: "eglGetCurrentDisplay ?env = 1" "eglGetCurrentContext ?env = 1" by code_simp+
  from acquire_failure_returns_OK [OF h1 h2 h3 h4 h5]
  have "updateTexImage example_holding ?env =
          Returned (OK,
            example_holding\<lparr>mEglDisplay := eglGetCurrentDisplay ?env,
                             mEglContext := eglGetCurrentContext ?env\<rparr>,
            [AcquireBuffer, GlBindTexture (mTexTarget example_holding) (mTexName example_holding)])"
    by (rule conjunct1)
  then have "updateTexImage example_holding ?env =
          Returned (OK, example_holding, [AcquireBuffer, GlBindTexture 0x8D65 1])"
    by (simp only: e t)
  moreover have "mEglDisplay example_holding = 1" "mEglContext example_holding = 1"
    by code_simp+
  moreover have "BAD_VALUE \<noteq> NO_ERROR" by code_simp
  ultimately show ?thesis using h1 h2 by simp
qed

text \<open>
  Claim C3 as stated, that an error of \<^verbatim>\<open>acquireBuffer\<close> other than ``no buffer
  available'' is the return value of \<^verbatim>\<open>updateTexImage\<close>, fails: the two different
  errors \<^verbatim>\<open>NO_INIT\<close> and \<^verbatim>\<open>BAD_VALUE\<close> both end in \<^verbatim>\<open>OK\<close>.
\<close>

theorem acquire_errors_not_passed_through:
  "NO_INIT \<noteq> NO_ERROR \<and> BAD_VALUE \<noteq> NO_ERROR \<and> NO_INIT \<noteq> BAD_VALUE \<and>
   updateTexImage example_instance (example_platform\<lparr>acquireBuffer := (NO_INIT, example_item)\<rparr>) =
     Returned (OK, example_instance\<lparr>mEglDisplay := 1, mEglContext := 1\<rparr>,
       [AcquireBuffer, GlBindTexture 0x8D65 1]) \<and>
   updateTexImage example_instance (example_platform\<lparr>acquireBuffer := (BAD_VALUE, example_item)\<rparr>) =
     Returned (OK, example_instance\<lparr>mEglDisplay := 1, mEglContext := 1\<rparr>,
       [AcquireBuffer, GlBindTexture 0x8D65 1]) \<and>
   OK \<noteq> NO_INIT \<and> OK \<noteq> BAD_VALUE"
  by code_simp

text \<open>
  Claim C4 fails on the code. The first frame of a newly constructed instance, whose
  current slot is \<^verbatim>\<open>INVALID_BUFFER_SLOT\<close>: \<^verbatim>\<open>updateTexImage\<close> loads the fence of
  \<^verbatim>\<open>mEGLSlots[INVALID_BUFFER_SLOT]\<close>, outside the table, and calls \<^verbatim>\<open>releaseBuffer\<close>
  with the sentinel slot and the value loaded.
\<close>

theorem first_frame_releases_sentinel_slot:
  "mCurrentTexture example_instance = INVALID_BUFFER_SLOT \<and>
   updateTexImage example_instance example_platform =
   Returned (OK,
     example_instance
       \<lparr>mCurrentTextureBuf := Some example_buffer,
        mCurrentCrop := mCrop example_item,
        mCurrentTimestamp := 1,
        mCurrentTransformMatrix := mtxFlipV,
        mEglDisplay := 1,
        mEglContext := 1,
        mCurrentTexture := 0,
        mEGLSlots := (mEGLSlots example_instance)
          [0 := \<lparr>mGraphicBuffer = Some example_buffer, mEglImage = 9, mFence = EGL_NO_SYNC_KHR\<rparr>]\<rparr>,
     [AcquireBuffer, ClearGraphicBuffer 0, EglCreateImageKHR 1 example_buffer,
      GlBindTexture 0x8D65 1, GlEGLImageTargetTexture2DOES 0x8D65 9,
      LoadOutsideSlots INVALID_BUFFER_SLOT, ReleaseBuffer INVALID_BUFFER_SLOT 1 99])"
  by code_simp

section \<open>The invariant and the GPU context\<close>

lemma list_all_update:
  "list_all P xs \<Longrightarrow> P x \<Longrightarrow> list_all P (xs[i := x])"
  by (metis list_all_iff set_update_subset_insert insert_iff subsetD)

lemma list_all_nth:
  "list_all P xs \<Longrightarrow> i < length xs \<Longrightarrow> P (xs ! i)"
  by (simp add: list_all_length)

lemma invariant_slot:
  assumes "invariant st" "0 \<le> i" "i < NUM_BUFFER_SLOTS"
  shows "mEglImage (mEGLSlots st ! nat i) = EGL_NO_IMAGE_KHR \<or>
         mGraphicBuffer (mEGLSlots st ! nat i) \<noteq> None"
proof -
  have "nat i < length (mEGLSlots st)"
    using assms by (simp add: invariant_def)
  moreover have "list_all (\<lambda>slot. mEglImage slot = EGL_NO_IMAGE_KHR \<or> mGraphicBuffer slot \<noteq> None)
        (mEGLSlots st)"
    using assms(1) by (simp add: invariant_def)
  ultimately show ?thesis by (rule list_all_nth [rotated])
qed

lemma ctor_invariant:
  "invariant (fst (SurfaceTexture_ctor u tex a target f q pid uid nq cs crop sm))"
  by (auto simp: SurfaceTexture_ctor_def Let_def invariant_def EGLSlot_ctor_def
      list_all_iff NUM_BUFFER_SLOTS_def split: option.splits)

lemma computeCurrentTransformMatrix_Returned:
  "isEmpty (mCurrentCrop st) \<or> mCurrentTextureBuf st \<noteq> None \<Longrightarrow>
   \<exists>m. computeCurrentTransformMatrix st = Returned (st\<lparr>mCurrentTransformMatrix := m\<rparr>)"
  by (auto simp: computeCurrentTransformMatrix_def Let_def)

lemma commitFrame_Returned:
  assumes "invariant st" "0 \<le> mBuf item" "mBuf item < NUM_BUFFER_SLOTS"
    and "isEmpty (mCrop item) \<or> mGraphicBuffer (mEGLSlots st ! nat (mBuf item)) \<noteq> None"
  shows "\<exists>st' es'. commitFrame st env dpy item es = Returned (OK, st', es') \<and>
           invariant st' \<and> same_binding st st'"
proof -
  define st1 where "st1 = st\<lparr>mCurrentTexture := mBuf item,
                   mCurrentTextureBuf := mGraphicBuffer (mEGLSlots st ! nat (mBuf item)),
                   mCurrentCrop := mCrop item,
                   mCurrentTransform := mTransform item,
                   mCurrentScalingMode := mScalingMode item,
                   mCurrentTimestamp := mTimestamp item\<rparr>"
  have "isEmpty (mCurrentCrop st1) \<or> mCurrentTextureBuf st1 \<noteq> None"
    using assms(4) by (simp add: st1_def)
  then obtain m where m: "computeCurrentTransformMatrix st1 = Returned (st1\<lparr>mCurrentTransformMatrix := m\<rparr>)"
    using computeCurrentTransformMatrix_Returned by blast
  have "invariant (st1\<lparr>mCurrentTransformMatrix := m\<rparr>)"
    using assms(1-3) by (simp add: invariant_def st1_def)
  moreover have "same_binding st (st1\<lparr>mCurrentTransformMatrix := m\<rparr>)"
    by (simp add: same_binding_def st1_def)
  ultimately show ?thesis
    using m by (simp add: commitFrame_def Let_def st1_def [symmetric])
qed

lemma fenceHandoff_Returned:
  assumes "invariant st" "0 \<le> mBuf item" "mBuf item < NUM_BUFFER_SLOTS"
    and "isEmpty (mCrop item) \<or> mGraphicBuffer (mEGLSlots st ! nat (mBuf item)) \<noteq> None"
  shows "\<exists>r st' es'. fenceHandoff st env dpy item es = Returned (r, st', es') \<and>
           invariant st' \<and> same_binding st st'"
proof (cases "mCurrentTexture st \<noteq> INVALID_BUFFER_SLOT \<and> mUseFenceSync st")
  case False
  then have "fenceHandoff st env dpy item es = commitFrame st env dpy item es"
    by (auto simp: fenceHandoff_def Let_def)
  then show ?thesis using commitFrame_Returned [OF assms] by metis
next
  case True
  then have cur: "0 \<le> mCurrentTexture st" "mCurrentTexture st < NUM_BUFFER_SLOTS"
    using assms(1) by (auto simp: invariant_def)
  show ?thesis
  proof (cases "eglCreateSyncKHR env = EGL_NO_SYNC_KHR")
    case nofence: True
    then have "fenceHandoff st env dpy item es = Returned (- EINVAL, st,
         (es @ [EglCreateSyncKHR dpy]) @
           [ReleaseBuffer (mBuf item) dpy (mFence (mEGLSlots st ! nat (mBuf item)))])"
      using True by (simp add: fenceHandoff_def Let_def)
    then show ?thesis using assms(1) by (simp add: same_binding_def)
  next
    case False
    define st1 where "st1 = st\<lparr>mEGLSlots := (mEGLSlots st)[nat (mCurrentTexture st) :=
         (mEGLSlots st ! nat (mCurrentTexture st))\<lparr>mFence := eglCreateSyncKHR env\<rparr>]\<rparr>"
    have len: "nat (mCurrentTexture st) < length (mEGLSlots st)"
      using cur assms(1) by (simp add: invariant_def)
    have old: "mEglImage (mEGLSlots st ! nat (mCurrentTexture st)) = EGL_NO_IMAGE_KHR \<or>
               mGraphicBuffer (mEGLSlots st ! nat (mCurrentTexture st)) \<noteq> None"
      using assms(1) cur by (rule invariant_slot)
    have inv1: "invariant st1"
      using assms(1) old by (auto simp: invariant_def st1_def intro!: list_all_update)
    have buf1: "mGraphicBuffer (mEGLSlots st1 ! nat (mBuf item)) =
                mGraphicBuffer (mEGLSlots st ! nat (mBuf item))"
      using len by (cases "nat (mBuf item) = nat (mCurrentTexture st)") (simp_all add: st1_def)
    have f: "fenceHandoff st env dpy item es =
             commitFrame st1 env dpy item ((es @ [EglCreateSyncKHR dpy]) @ [GlFlush])"
      using True False cur by (simp add: fenceHandoff_def Let_def st1_def)
    have "same_binding st st1" by (simp add: same_binding_def st1_def)
    moreover obtain st' es' where
      "commitFrame st1 env dpy item ((es @ [EglCreateSyncKHR dpy]) @ [GlFlush]) = Returned (OK, st', es')"
      "invariant st'" "same_binding st1 st'"
      using commitFrame_Returned [OF inv1 assms(2,3), of env dpy "(es @ [EglCreateSyncKHR dpy]) @ [GlFlush]"]
        assms(4) buf1 by auto
    ultimately show ?thesis using f by (auto simp: same_binding_def)
  qed
qed

lemma bindImage_Returned:
  assumes "invariant st" "0 \<le> mBuf item" "mBuf item < NUM_BUFFER_SLOTS"
    and "isEmpty (mCrop item) \<or> mGraphicBuffer (mEGLSlots st ! nat (mBuf item)) \<noteq> None"
  shows "\<exists>r st' es'. bindImage st env dpy item img es = Returned (r, st', es') \<and>
           invariant st' \<and> same_binding st st'"
proof (cases "bindErrors (glGetError_after_bind env) False")
  case True
  then show ?thesis using assms(1) by (simp add: bindImage_def Let_def same_binding_def)
next
  case False
  then show ?thesis
    using fenceHandoff_Returned [OF assms] by (simp add: bindImage_def Let_def)
qed

lemma updateImage_Returned:
  assumes "invariant st" "0 \<le> mBuf item" "mBuf item < NUM_BUFFER_SLOTS"
    and "mGraphicBuffer_item item \<noteq> None \<longrightarrow>
         mGraphicBuffer (mEGLSlots st ! nat (mBuf item)) \<noteq> None"
  shows "\<exists>r st' es'. updateImage st env dpy item es = Returned (r, st', es') \<and>
           invariant st' \<and> same_binding st st'"
proof -
  have len: "nat (mBuf item) < length (mEGLSlots st)"
    using assms(1-3) by (simp add: invariant_def)
  show ?thesis
  proof (cases "mEglImage (mEGLSlots st ! nat (mBuf item)) = EGL_NO_IMAGE_KHR")
    case False
    then have "mGraphicBuffer (mEGLSlots st ! nat (mBuf item)) \<noteq> None"
      using invariant_slot [OF assms(1-3)] by simp
    then show ?thesis
      using False bindImage_Returned [OF assms(1-3)] by (simp add: updateImage_def Let_def)
  next
    case noimage: True
    show ?thesis
    proof (cases "mGraphicBuffer_item item")
      case None
      then show ?thesis
        using noimage assms(1) by (simp add: updateImage_def Let_def same_binding_def)
    next
      case (Some b)
      define st1 where "st1 = st\<lparr>mEGLSlots := (mEGLSlots st)[nat (mBuf item) :=
           (mEGLSlots st ! nat (mBuf item))\<lparr>mEglImage := eglCreateImageKHR env\<rparr>]\<rparr>"
      have has: "mGraphicBuffer (mEGLSlots st ! nat (mBuf item)) \<noteq> None"
        using assms(4) Some by simp
      have inv1: "invariant st1"
        using assms(1) has by (auto simp: invariant_def st1_def intro!: list_all_update)
      have buf1: "mGraphicBuffer (mEGLSlots st1 ! nat (mBuf item)) \<noteq> None"
        using has len by (simp add: st1_def)
      have sb: "same_binding st st1" by (simp add: same_binding_def st1_def)
      show ?thesis
      proof (cases "eglCreateImageKHR env = EGL_NO_IMAGE_KHR")
        case True
        then have "updateImage st env dpy item es =
                   Returned (- EINVAL, st1, es @ [EglCreateImageKHR dpy b])"
          using noimage Some by (simp add: updateImage_def createImage_def Let_def st1_def)
        then show ?thesis using inv1 sb by simp
      next
        case False
        then have "updateImage st env dpy item es =
                   bindImage st1 env dpy item (eglCreateImageKHR env) (es @ [EglCreateImageKHR dpy b])"
          using noimage Some by (simp add: updateImage_def createImage_def Let_def st1_def)
        moreover obtain r st' es' where
          "bindImage st1 env dpy item (eglCreateImageKHR env) (es @ [EglCreateImageKHR dpy b]) =
             Returned (r, st', es')" "invariant st'" "same_binding st1 st'"
          using bindImage_Returned [OF inv1 assms(2,3)] buf1 by blast
        ultimately show ?thesis using sb by (auto simp: same_binding_def)
      qed
    qed
  qed
qed

lemma installBuffer_invariant:
  assumes "invariant st" "0 \<le> mBuf item" "mBuf item < NUM_BUFFER_SLOTS"
    and "installBuffer st dpy item = (st', es)"
  shows "invariant st' \<and> same_binding st st' \<and>
         (mGraphicBuffer_item item \<noteq> None \<longrightarrow>
            mGraphicBuffer (mEGLSlots st' ! nat (mBuf item)) \<noteq> None)"
proof -
  have len: "nat (mBuf item) < length (mEGLSlots st)"
    using assms(1-3) by (simp add: invariant_def)
  show ?thesis
    using assms(1,4) len
    by (auto simp: installBuffer_def Let_def invariant_def same_binding_def
        split: if_splits intro!: list_all_update)
qed

lemma updateTexImage_latches:
  assumes "invariant st"
    and "fst (acquireBuffer env) = NO_ERROR \<longrightarrow>
         0 \<le> mBuf (snd (acquireBuffer env)) \<and> mBuf (snd (acquireBuffer env)) < NUM_BUFFER_SLOTS"
    and "\<not> mAbandoned st"
    and "mEglDisplay st = eglGetCurrentDisplay env \<or> mEglDisplay st = EGL_NO_DISPLAY"
    and "mEglContext st = eglGetCurrentContext env \<or> mEglContext st = EGL_NO_CONTEXT"
  shows "\<exists>r st' es. updateTexImage st env = Returned (r, st', es) \<and> invariant st' \<and>
           mEglDisplay st' = eglGetCurrentDisplay env \<and>
           mEglContext st' = eglGetCurrentContext env"
proof -
  define st1 where "st1 = st\<lparr>mEglDisplay := eglGetCurrentDisplay env,
                               mEglContext := eglGetCurrentContext env\<rparr>"
  have inv1: "invariant st1" using assms(1) by (simp add: invariant_def st1_def)
  obtain q where q: "mBufferQueue st1 = Some q"
    using assms(1,3) by (auto simp: invariant_def st1_def)
  show ?thesis
  proof (cases "fst (acquireBuffer env) = NO_ERROR")
    case False
    then have "updateTexImage st env = Returned (OK, st1,
        [AcquireBuffer, GlBindTexture (mTexTarget st1) (mTexName st1)])"
      using assms(3-5) q by (auto simp: updateTexImage_def Let_def st1_def)
    then show ?thesis using inv1 by (simp add: st1_def)
  next
    case True
    define item where "item = snd (acquireBuffer env)"
    have rng: "0 \<le> mBuf item" "mBuf item < NUM_BUFFER_SLOTS"
      using assms(2) True by (simp_all add: item_def)
    obtain st2 es2 where i: "installBuffer st1 (eglGetCurrentDisplay env) item = (st2, es2)"
      by (cases "installBuffer st1 (eglGetCurrentDisplay env) item")
    have u: "updateTexImage st env =
             updateImage st2 env (eglGetCurrentDisplay env) item (AcquireBuffer # es2)"
      using assms(3-5) q True rng i
      by (auto simp: updateTexImage_def Let_def st1_def item_def)
    from installBuffer_invariant [OF inv1 rng i]
    have 2: "invariant st2" "same_binding st1 st2" "mGraphicBuffer_item item \<noteq> None \<longrightarrow>
            mGraphicBuffer (mEGLSlots st2 ! nat (mBuf item)) \<noteq> None"
      by simp_all
    from updateImage_Returned [OF 2(1) rng 2(3)]
    obtain r st' es where
      "updateImage st2 env (eglGetCurrentDisplay env) item (AcquireBuffer # es2) = Returned (r, st', es)"
      "invariant st'" "same_binding st2 st'"
      by blast
    then show ?thesis using u 2(2) by (auto simp: same_binding_def st1_def)
  qed
qed

text \<open>
  Claim C8. On an instance that is not abandoned: when the current display differs
  from a latched display that is not \<^verbatim>\<open>EGL_NO_DISPLAY\<close>, or the current context from a
  latched context that is not \<^verbatim>\<open>EGL_NO_CONTEXT\<close>, \<^verbatim>\<open>updateTexImage\<close> returns
  \<^verbatim>\<open>-EINVAL\<close>, changes nothing and calls nothing; when both checks pass (the object
  satisfying its invariant and the queue handing over a slot of the table)
  \<^verbatim>\<open>updateTexImage\<close> returns and the object holds the current display and context.
\<close>

theorem updateTexImage_context_binding:
  assumes "\<not> mAbandoned st"
  shows "((mEglDisplay st \<noteq> eglGetCurrentDisplay env \<and> mEglDisplay st \<noteq> EGL_NO_DISPLAY) \<or>
          (mEglContext st \<noteq> eglGetCurrentContext env \<and> mEglContext st \<noteq> EGL_NO_CONTEXT) \<longrightarrow>
          updateTexImage st env = Returned (- EINVAL, st, [])) \<and>
         ((mEglDisplay st = eglGetCurrentDisplay env \<or> mEglDisplay st = EGL_NO_DISPLAY) \<and>
          (mEglContext st = eglGetCurrentContext env \<or> mEglContext st = EGL_NO_CONTEXT) \<and>
          invariant st \<and>
          (fst (acquireBuffer env) = NO_ERROR \<longrightarrow>
             0 \<le> mBuf (snd (acquireBuffer env)) \<and>
             mBuf (snd (acquireBuffer env)) < NUM_BUFFER_SLOTS) \<longrightarrow>
          (\<exists>r st' es. updateTexImage st env = Returned (r, st', es) \<and>
             mEglDisplay st' = eglGetCurrentDisplay env \<and>
             mEglContext st' = eglGetCurrentContext env))"
proof (intro conjI impI)
  assume "(mEglDisplay st \<noteq> eglGetCurrentDisplay env \<and> mEglDisplay st \<noteq> EGL_NO_DISPLAY) \<or>
          (mEglContext st \<noteq> eglGetCurrentContext env \<and> mEglContext st \<noteq> EGL_NO_CONTEXT)"
  then show "updateTexImage st env = Returned (- EINVAL, st, [])"
    using assms by (auto simp: updateTexImage_def Let_def)
next
  assume a: "(mEglDisplay st = eglGetCurrentDisplay env \<or> mEglDisplay st = EGL_NO_DISPLAY) \<and>
          (mEglContext st = eglGetCurrentContext env \<or> mEglContext st = EGL_NO_CONTEXT) \<and>
          invariant st \<and>
          (fst (acquireBuffer env) = NO_ERROR \<longrightarrow>
             0 \<le> mBuf (snd (acquireBuffer env)) \<and>
             mBuf (snd (acquireBuffer env)) < NUM_BUFFER_SLOTS)"
  then have "\<exists>r st' es. updateTexImage st env = Returned (r, st', es) \<and> invariant st' \<and>
           mEglDisplay st' = eglGetCurrentDisplay env \<and>
           mEglContext st' = eglGetCurrentContext env"
    using assms by (intro updateTexImage_latches) simp_all
  then show "\<exists>r st' es. updateTexImage st env = Returned (r, st', es) \<and>
             mEglDisplay st' = eglGetCurrentDisplay env \<and>
             mEglContext st' = eglGetCurrentContext env"
    by blast
qed

text \<open>
  The example instance after three frames, latched on display 1 and context 1: called
  from display 2, from context 2, and from display 1 and context 1.
\<close>

theorem updateTexImage_context_binding_witness:
  "\<not> mAbandoned example_holding \<and>
   mEglDisplay example_holding = 1 \<and> mEglContext example_holding = 1 \<and>
   updateTexImage example_holding (example_platform\<lparr>eglGetCurrentDisplay := 2\<rparr>) =
     Returned (- EINVAL, example_holding, []) \<and>
   updateTexImage example_holding (example_platform\<lparr>eglGetCurrentContext := 2\<rparr>) =
     Returned (- EINVAL, example_holding, []) \<and>
   invariant example_holding \<and>
   (\<exists>r st' es. updateTexImage example_holding example_platform = Returned (r, st', es) \<and>
      mEglDisplay st' = 1 \<and> mEglContext st' = 1)"
proof -
  have h: "\<not> mAbandoned example_holding" by code_simp
  have i: "invariant example_holding" by code_simp
  have f: "mEglDisplay example_holding = 1" "mEglContext example_holding = 1"
    "EGL_NO_DISPLAY = 0" "EGL_NO_CONTEXT = 0"
    by code_simp+
  have p: "eglGetCurrentDisplay example_platform = 1" "eglGetCurrentContext example_platform = 1"
    "fst (acquireBuffer example_platform) = NO_ERROR"
    "mBuf (snd (acquireBuffer example_platform)) = 0" "NUM_BUFFER_SLOTS = 32"
    by code_simp+
  have 1: "updateTexImage example_holding (example_platform\<lparr>eglGetCurrentDisplay := 2\<rparr>) =
     Returned (- EINVAL, example_holding, [])"
    using updateTexImage_context_binding [OF h, of "example_platform\<lparr>eglGetCurrentDisplay := 2\<rparr>"]
    by (simp add: f)
  have 2: "updateTexImage example_holding (example_platform\<lparr>eglGetCurrentContext := 2\<rparr>) =
     Returned (- EINVAL, example_holding, [])"
    using updateTexImage_context_binding [OF h, of "example_platform\<lparr>eglGetCurrentContext := 2\<rparr>"]
    by (simp add: f p)
  have 3: "\<exists>r st' es. updateTexImage example_holding example_platform = Returned (r, st', es) \<and>
      mEglDisplay st' = 1 \<and> mEglContext st' = 1"
    using updateTexImage_context_binding [OF h, of example_platform] i
    by (simp add: f p)
  show ?thesis using h i f(1,2) 1 2 3 by blast
qed

end
